theory Spec2Isabelle
  imports Main "HOL-Library.Word" "HOL-Library.Sublist" "HOL-Library.AList"
begin

section \<open>JavaScript values\<close>

text \<open>
  The server is TypeScript running on Node. A JavaScript string is a sequence of 16-bit
  code units; \<open>lit\<close> embeds an ASCII literal of the source.
\<close>

type_synonym jsstring = "16 word list"

definition lit :: "string \<Rightarrow> jsstring" where
  "lit s = map of_char s"

text \<open>A number in a template literal, as in \<^verbatim>\<open>`${response.status}`\<close>: its decimal digits.\<close>

function show_nat :: "nat \<Rightarrow> jsstring" where
  "show_nat n =
     (if n < 10 then [of_nat (48 + n)] else show_nat (n div 10) @ [of_nat (48 + n mod 10)])"
  by pat_completeness auto
termination
  by (relation "measure id") auto

text \<open>
  What a \<^verbatim>\<open>throw\<close> carries: the error's class and its message. Every handler is an
  \<^verbatim>\<open>async\<close> function, so a result is \<open>Inl\<close> of the error it rejects with or \<open>Inr\<close> of
  the value it resolves to.
\<close>

datatype error_name = Error | TypeError | SyntaxError | URIError | DOMException

datatype js_error = Thrown error_name jsstring

fun message :: "js_error \<Rightarrow> jsstring" where
  "message (Thrown n m) = m"

text \<open>
  The values \<^verbatim>\<open>response.json()\<close> can produce, and \<^verbatim>\<open>undefined\<close>. Numbers are kept to
  the integers (the handlers below only copy or count them). The list of an \<open>Obj\<close> is its
  set of own properties, read with \<open>map_of\<close>: the order of the list carries no meaning.
\<close>

datatype jsval =
    Undefined
  | Null
  | Bool bool
  | Num int
  | Str jsstring
  | Arr "jsval list"
  | Obj "(jsstring \<times> jsval) list"

text \<open>\<^verbatim>\<open>!v\<close> is \<open>\<not> truthy v\<close>.\<close>

fun truthy :: "jsval \<Rightarrow> bool" where
  "truthy Undefined = False"
| "truthy Null = False"
| "truthy (Bool b) = b"
| "truthy (Num n) = (n \<noteq> 0)"
| "truthy (Str s) = (s \<noteq> [])"
| "truthy (Arr xs) = True"
| "truthy (Obj kvs) = True"

definition cannot_read :: "string \<Rightarrow> string \<Rightarrow> js_error" where
  "cannot_read base k =
     Thrown TypeError
       (lit ''Cannot read properties of '' @ lit base @ lit '' (reading '' @ [39] @ lit k
          @ [39] @ lit '')'')"

definition not_a_function :: "string \<Rightarrow> js_error" where
  "not_a_function what = Thrown TypeError (lit what @ lit '' is not a function'')"

text \<open>
  \<^verbatim>\<open>v.k\<close> for the property names the handlers read (\<^verbatim>\<open>sha\<close>, \<^verbatim>\<open>content\<close>, \<^verbatim>\<open>name\<close>,
  \<^verbatim>\<open>length\<close>, ...; none of them is a method of a prototype). Reading a property of
  \<^verbatim>\<open>undefined\<close> or \<^verbatim>\<open>null\<close> throws a TypeError; a property an object does not have
  is \<^verbatim>\<open>undefined\<close>.
\<close>

fun get_prop :: "jsval \<Rightarrow> string \<Rightarrow> js_error + jsval" where
  "get_prop Undefined k = Inl (cannot_read ''undefined'' k)"
| "get_prop Null k = Inl (cannot_read ''null'' k)"
| "get_prop (Obj kvs) k = (case map_of kvs (lit k) of Some v \<Rightarrow> Inr v | None \<Rightarrow> Inr Undefined)"
| "get_prop (Arr xs) k = (if k = ''length'' then Inr (Num (int (length xs))) else Inr Undefined)"
| "get_prop (Str s) k = (if k = ''length'' then Inr (Num (int (length s))) else Inr Undefined)"
| "get_prop (Bool b) k = Inr Undefined"
| "get_prop (Num n) k = Inr Undefined"

text \<open>Sequencing of steps that may throw: the first error ends the computation.\<close>

fun and_then :: "js_error + 'a \<Rightarrow> ('a \<Rightarrow> js_error + 'b) \<Rightarrow> js_error + 'b" where
  "and_then (Inl e) f = Inl e"
| "and_then (Inr v) f = f v"

fun map_throwing :: "('a \<Rightarrow> js_error + 'b) \<Rightarrow> 'a list \<Rightarrow> js_error + 'b list" where
  "map_throwing f [] = Inr []"
| "map_throwing f (x # xs) =
     (case f x of
        Inl e \<Rightarrow> Inl e
      | Inr y \<Rightarrow> (case map_throwing f xs of Inl e \<Rightarrow> Inl e | Inr ys \<Rightarrow> Inr (y # ys)))"

fun filter_throwing :: "('a \<Rightarrow> js_error + bool) \<Rightarrow> 'a list \<Rightarrow> js_error + 'a list" where
  "filter_throwing p [] = Inr []"
| "filter_throwing p (x # xs) =
     (case p x of
        Inl e \<Rightarrow> Inl e
      | Inr b \<Rightarrow>
          (case filter_throwing p xs of
             Inl e \<Rightarrow> Inl e
           | Inr ys \<Rightarrow> Inr (if b then x # ys else ys)))"

text \<open>
  The receiver of \<^verbatim>\<open>v.map(...)\<close> or \<^verbatim>\<open>v.filter(...)\<close>: the elements of an array; on
  anything else the call throws a TypeError (\<open>what\<close> is the text of the callee, for the
  message).
\<close>

fun array_receiver :: "string \<Rightarrow> string \<Rightarrow> jsval \<Rightarrow> js_error + jsval list" where
  "array_receiver what k (Arr xs) = Inr xs"
| "array_receiver what k Undefined = Inl (cannot_read ''undefined'' k)"
| "array_receiver what k Null = Inl (cannot_read ''null'' k)"
| "array_receiver what k v = Inl (not_a_function what)"

definition js_map :: "string \<Rightarrow> (jsval \<Rightarrow> js_error + jsval) \<Rightarrow> jsval \<Rightarrow> js_error + jsval" where
  "js_map what f v =
     and_then (array_receiver (what @ ''.map'') ''map'' v)
       (\<lambda>xs. and_then (map_throwing f xs) (\<lambda>ys. Inr (Arr ys)))"

definition js_filter :: "string \<Rightarrow> (jsval \<Rightarrow> js_error + bool) \<Rightarrow> jsval \<Rightarrow> js_error + jsval" where
  "js_filter what p v =
     and_then (array_receiver (what @ ''.filter'') ''filter'' v)
       (\<lambda>xs. and_then (filter_throwing p xs) (\<lambda>ys. Inr (Arr ys)))"

text \<open>\<^verbatim>\<open>s.replace(pat, rep)\<close> with a string pattern: the first occurrence only.\<close>

fun replace_first :: "jsstring \<Rightarrow> jsstring \<Rightarrow> jsstring \<Rightarrow> jsstring" where
  "replace_first pat rep [] = (if pat = [] then rep else [])"
| "replace_first pat rep (c # cs) =
     (if prefix pat (c # cs) then rep @ drop (length pat) (c # cs)
      else c # replace_first pat rep cs)"

fun string_receiver :: "string \<Rightarrow> string \<Rightarrow> jsval \<Rightarrow> js_error + jsstring" where
  "string_receiver what k (Str s) = Inr s"
| "string_receiver what k Undefined = Inl (cannot_read ''undefined'' k)"
| "string_receiver what k Null = Inl (cannot_read ''null'' k)"
| "string_receiver what k v = Inl (not_a_function what)"

definition js_replace :: "string \<Rightarrow> string \<Rightarrow> string \<Rightarrow> jsval \<Rightarrow> js_error + jsval" where
  "js_replace what pat rep v =
     and_then (string_receiver (what @ ''.replace'') ''replace'' v)
       (\<lambda>s. Inr (Str (replace_first (lit pat) (lit rep) s)))"

definition js_endsWith :: "string \<Rightarrow> string \<Rightarrow> jsval \<Rightarrow> js_error + bool" where
  "js_endsWith what suf v =
     and_then (string_receiver (what @ ''.endsWith'') ''endsWith'' v)
       (\<lambda>s. Inr (suffix (lit suf) s))"

section \<open>\<^verbatim>\<open>encodeURIComponent\<close>\<close>

text \<open>
  The built-in of the language (ECMA-262, Encode with the unreserved set of
  \<^verbatim>\<open>encodeURIComponent\<close>): letters, digits and \<^verbatim>\<open>-_.!~*'()\<close> are kept; every other
  code point is written as the \<^verbatim>\<open>%XX\<close> escapes of its UTF-8 bytes; a surrogate code unit
  that is not part of a pair throws \<^verbatim>\<open>URIError: URI malformed\<close>.
\<close>

definition uri_unreserved :: "16 word \<Rightarrow> bool" where
  "uri_unreserved c =
     (c \<in> set (39 # lit ''ABCDEFGHIJKLMNOPQRSTUVWXYZabcdefghijklmnopqrstuvwxyz0123456789-_.!~*()''))"

definition is_high_surrogate :: "16 word \<Rightarrow> bool" where
  "is_high_surrogate c = (0xD800 \<le> c \<and> c \<le> 0xDBFF)"

definition is_low_surrogate :: "16 word \<Rightarrow> bool" where
  "is_low_surrogate c = (0xDC00 \<le> c \<and> c \<le> 0xDFFF)"

definition code_point :: "16 word \<Rightarrow> 16 word \<Rightarrow> nat" where
  "code_point hi lo = (unat hi - 0xD800) * 0x400 + (unat lo - 0xDC00) + 0x10000"

definition utf8_bytes :: "nat \<Rightarrow> nat list" where
  "utf8_bytes cp =
     (if cp < 0x80 then [cp]
      else if cp < 0x800 then [0xC0 + cp div 64, 0x80 + cp mod 64]
      else if cp < 0x10000 then [0xE0 + cp div 4096, 0x80 + (cp div 64) mod 64, 0x80 + cp mod 64]
      else [0xF0 + cp div 262144, 0x80 + (cp div 4096) mod 64, 0x80 + (cp div 64) mod 64,
            0x80 + cp mod 64])"

definition hex_digit :: "nat \<Rightarrow> 16 word" where
  "hex_digit n = lit ''0123456789ABCDEF'' ! (n mod 16)"

definition percent_escape :: "nat \<Rightarrow> jsstring" where
  "percent_escape cp = concat (map (\<lambda>b. [37, hex_digit (b div 16), hex_digit b]) (utf8_bytes cp))"

definition uri_malformed :: js_error where
  "uri_malformed = Thrown URIError (lit ''URI malformed'')"

fun encodeURIComponent :: "jsstring \<Rightarrow> js_error + jsstring" where
  "encodeURIComponent [] = Inr []"
| "encodeURIComponent [c] =
     (if uri_unreserved c then Inr [c]
      else if is_low_surrogate c then Inl uri_malformed
      else if is_high_surrogate c then Inl uri_malformed
      else Inr (percent_escape (unat c)))"
| "encodeURIComponent (c # d # ds) =
     (if uri_unreserved c then and_then (encodeURIComponent (d # ds)) (\<lambda>r. Inr (c # r))
      else if is_low_surrogate c then Inl uri_malformed
      else if is_high_surrogate c then
        (if is_low_surrogate d
         then and_then (encodeURIComponent ds) (\<lambda>r. Inr (percent_escape (code_point c d) @ r))
         else Inl uri_malformed)
      else and_then (encodeURIComponent (d # ds)) (\<lambda>r. Inr (percent_escape (unat c) @ r)))"

text \<open>A string every surrogate of which is half of a pair.\<close>

fun well_formed :: "jsstring \<Rightarrow> bool" where
  "well_formed [] = True"
| "well_formed [c] = (\<not> is_high_surrogate c \<and> \<not> is_low_surrogate c)"
| "well_formed (c # d # ds) =
     (if is_high_surrogate c then is_low_surrogate d \<and> well_formed ds
      else \<not> is_low_surrogate c \<and> well_formed (d # ds))"

section \<open>The upstream client\<close>

text \<open>
  \<^verbatim>\<open>fetch\<close> is the network: given the state of the world and a request it answers with a
  response, or rejects, and the world moves on. A response has its status, and what
  \<^verbatim>\<open>response.text()\<close> and \<^verbatim>\<open>response.json()\<close> give (each may reject). The body of a
  request is kept as the value handed to \<^verbatim>\<open>JSON.stringify\<close>; a property whose value is
  \<^verbatim>\<open>undefined\<close> is one \<^verbatim>\<open>JSON.stringify\<close> leaves out.
\<close>

datatype http_method = GET | PUT | DELETE

record request_init =
  init_method :: http_method
  init_body :: "jsval option"

record http_request =
  req_url :: jsstring
  req_method :: http_method
  req_headers :: "(string \<times> jsstring) list"
  req_body :: "jsval option"

record http_response =
  status :: nat
  text_body :: "js_error + jsstring"
  json_body :: "js_error + jsval"

text \<open>
  The environment of the process: the two configuration strings, the network, and the
  two conversions of Node's \<^verbatim>\<open>Buffer\<close> the handlers call,
  \<^verbatim>\<open>Buffer.from(v, "base64").toString()\<close> (which throws when \<open>v\<close> is not something a buffer
  can be made from) and \<^verbatim>\<open>Buffer.from(s).toString("base64")\<close>. \<open>settle_order\<close> is the order
  in which promises that run concurrently settle.
\<close>

record 'w env =
  GITHUB_TOKEN :: jsstring
  GITHUB_OWNER :: jsstring
  fetch :: "'w \<Rightarrow> http_request \<Rightarrow> (js_error + http_response) \<times> 'w"
  base64_to_string :: "jsval \<Rightarrow> js_error + jsstring"
  string_to_base64 :: "jsstring \<Rightarrow> jsstring"
  settle_order :: "nat list"

text \<open>The state a handler runs in: the world, and the requests sent so far.\<close>

record 'w net =
  world :: 'w
  calls :: "http_request list"

definition default_init :: request_init where
  "default_init = \<lparr>init_method = GET, init_body = None\<rparr>"

definition response_ok :: "http_response \<Rightarrow> bool" where
  "response_ok r = (200 \<le> status r \<and> status r \<le> 299)"

definition github_api_error :: "nat \<Rightarrow> jsstring \<Rightarrow> js_error" where
  "github_api_error st body =
     Thrown Error (lit ''GitHub API error: '' @ show_nat st @ lit '' - '' @ body)"

definition build_request :: "'w env \<Rightarrow> jsstring \<Rightarrow> request_init \<Rightarrow> http_request" where
  "build_request env endpoint options =
     \<lparr>req_url = lit ''https://api.github.com'' @ endpoint,
      req_method = init_method options,
      req_headers =
        [(''Authorization'', lit ''Bearer '' @ GITHUB_TOKEN env),
         (''Accept'', lit ''application/vnd.github.v3+json''),
         (''Content-Type'', lit ''application/json'')],
      req_body = init_body options\<rparr>"

text \<open>
  \<^verbatim>\<open>githubRequest\<close>: the request is sent; a response that is not \<^verbatim>\<open>ok\<close> is thrown as an
  \<^verbatim>\<open>Error\<close> whose message holds the status and the text of the body, whatever the status
  is; otherwise the result is the parsed body.
\<close>

definition response_result :: "http_response \<Rightarrow> js_error + jsval" where
  "response_result response =
     (if response_ok response then json_body response
      else and_then (text_body response)
             (\<lambda>error. Inl (github_api_error (status response) error)))"

definition githubRequest ::
    "'w env \<Rightarrow> jsstring \<Rightarrow> request_init \<Rightarrow> 'w net \<Rightarrow> (js_error + jsval) \<times> 'w net" where
  "githubRequest env endpoint options st =
     (let req = build_request env endpoint options;
          (answer, w) = fetch env (world st) req
      in (and_then answer response_result, \<lparr>world = w, calls = calls st @ [req]\<rparr>))"

text \<open>What a handler resolves to: one text block, plain or the JSON text of a value.\<close>

datatype content = Text jsstring | JsonText jsval

type_synonym 'w handler_result = "(js_error + content) \<times> 'w net"

definition repo_endpoint :: "'w env \<Rightarrow> jsstring \<Rightarrow> jsstring" where
  "repo_endpoint env repo = lit ''/repos/'' @ GITHUB_OWNER env @ lit ''/'' @ repo"

definition contents_endpoint :: "'w env \<Rightarrow> jsstring \<Rightarrow> jsstring \<Rightarrow> jsstring" where
  "contents_endpoint env repo path = repo_endpoint env repo @ lit ''/contents/'' @ path"

text \<open>\<^verbatim>\<open>branch || "main"\<close>: an absent or empty branch is \<^verbatim>\<open>main\<close>.\<close>

definition or_default :: "jsstring option \<Rightarrow> string \<Rightarrow> jsstring" where
  "or_default v d = (case v of None \<Rightarrow> lit d | Some s \<Rightarrow> if s = [] then lit d else s)"


text \<open>
  The upstream, in the state \<open>st\<close>, rejects a request: it answers it with a status \<open>code\<close>
  outside 200..299 and the body \<open>body\<close>. A write that presents a stale version token is
  rejected in this way with the status 409.
\<close>

definition rejects :: "'w env \<Rightarrow> 'w net \<Rightarrow> jsstring \<Rightarrow> request_init \<Rightarrow> nat \<Rightarrow> jsstring \<Rightarrow> bool" where
  "rejects env st endpoint options code body =
     (\<exists>r w. fetch env (world st) (build_request env endpoint options) = (Inr r, w)
            \<and> status r = code \<and> (code < 200 \<or> 299 < code) \<and> text_body r = Inr body)"

section \<open>File operations\<close>

text \<open>
  \<^verbatim>\<open>obj[k] = v\<close> on an object literal \<^verbatim>\<open>{}\<close>, for a value \<open>v\<close> that is a string. The key
  \<^verbatim>\<open>__proto__\<close> names the accessor inherited from \<^verbatim>\<open>Object.prototype\<close>, whose setter
  ignores a value that is neither an object nor \<^verbatim>\<open>null\<close>: no property is created.
\<close>

definition assign :: "(jsstring \<times> jsval) list \<Rightarrow> jsstring \<Rightarrow> jsval \<Rightarrow> (jsstring \<times> jsval) list" where
  "assign props k v = (if k = lit ''__proto__'' then props else AList.update k v props)"

text \<open>\<^verbatim>\<open>read_multiple_files\<close>: the body of the loop, then the loop over \<^verbatim>\<open>paths\<close>.\<close>

definition read_one :: "'w env \<Rightarrow> jsstring \<Rightarrow> jsstring \<Rightarrow> 'w net \<Rightarrow> jsval \<times> 'w net" where
  "read_one env repo path st =
     (let (file, st1) = githubRequest env (contents_endpoint env repo path) default_init st
      in case and_then file (\<lambda>f. and_then (get_prop f ''content'') (base64_to_string env)) of
           Inr s \<Rightarrow> (Str s, st1)
         | Inl e \<Rightarrow> (Str (lit ''Error: '' @ message e), st1))"

fun read_loop ::
    "'w env \<Rightarrow> jsstring \<Rightarrow> jsstring list \<Rightarrow> (jsstring \<times> jsval) list \<Rightarrow> 'w net
      \<Rightarrow> (jsstring \<times> jsval) list \<times> 'w net" where
  "read_loop env repo [] results st = (results, st)"
| "read_loop env repo (path # paths) results st =
     (let (v, st1) = read_one env repo path st
      in read_loop env repo paths (assign results path v) st1)"

definition read_multiple_files :: "'w env \<Rightarrow> jsstring \<Rightarrow> jsstring list \<Rightarrow> 'w net \<Rightarrow> 'w handler_result" where
  "read_multiple_files env repo paths st =
     (let (results, st') = read_loop env repo paths [] st
      in (Inr (JsonText (Obj results)), st'))"

record update_file_args =
  uf_repo :: jsstring
  uf_path :: jsstring
  uf_content :: jsstring
  uf_message :: jsstring
  uf_branch :: "jsstring option"

definition update_file_init :: "'w env \<Rightarrow> update_file_args \<Rightarrow> jsval \<Rightarrow> request_init" where
  "update_file_init env a sha =
     \<lparr>init_method = PUT,
      init_body = Some (Obj
        [(lit ''message'', Str (uf_message a)),
         (lit ''content'', Str (string_to_base64 env (uf_content a))),
         (lit ''branch'', Str (or_default (uf_branch a) ''main'')),
         (lit ''sha'', sha)])\<rparr>"

definition update_file_reply :: "jsval \<Rightarrow> js_error + content" where
  "update_file_reply result =
     and_then (get_prop result ''commit'') (\<lambda>commit.
     and_then (get_prop commit ''sha'') (\<lambda>sha.
       Inr (JsonText (Obj [(lit ''success'', Bool True), (lit ''commit'', sha)]))))"

definition update_file :: "'w env \<Rightarrow> update_file_args \<Rightarrow> 'w net \<Rightarrow> 'w handler_result" where
  "update_file env a st =
     (let endpoint = contents_endpoint env (uf_repo a) (uf_path a);
          (existing, st1) = githubRequest env endpoint default_init st;
          sha = (case and_then existing (\<lambda>e. get_prop e ''sha'') of Inl _ \<Rightarrow> Undefined | Inr v \<Rightarrow> v);
          (result, st2) = githubRequest env endpoint (update_file_init env a sha) st1
      in (and_then result update_file_reply, st2))"

record delete_file_args =
  df_repo :: jsstring
  df_path :: jsstring
  df_message :: jsstring
  df_branch :: "jsstring option"

definition delete_file_init :: "delete_file_args \<Rightarrow> jsval \<Rightarrow> request_init" where
  "delete_file_init a sha =
     \<lparr>init_method = DELETE,
      init_body = Some (Obj
        [(lit ''message'', Str (df_message a)),
         (lit ''sha'', sha),
         (lit ''branch'', Str (or_default (df_branch a) ''main''))])\<rparr>"

definition delete_file :: "'w env \<Rightarrow> delete_file_args \<Rightarrow> 'w net \<Rightarrow> 'w handler_result" where
  "delete_file env a st =
     (let endpoint = contents_endpoint env (df_repo a) (df_path a);
          (existing, st1) = githubRequest env endpoint default_init st
      in case and_then existing (\<lambda>e. get_prop e ''sha'') of
           Inl e \<Rightarrow> (Inl e, st1)
         | Inr sha \<Rightarrow>
             (let (r, st2) = githubRequest env endpoint (delete_file_init a sha) st1
              in (and_then r (\<lambda>_. Inr (JsonText (Obj
                    [(lit ''success'', Bool True), (lit ''deleted'', Str (df_path a))]))), st2)))"

record rename_file_args =
  rf_repo :: jsstring
  rf_oldPath :: jsstring
  rf_newPath :: jsstring
  rf_message :: jsstring

definition rename_create_init :: "'w env \<Rightarrow> rename_file_args \<Rightarrow> jsstring \<Rightarrow> request_init" where
  "rename_create_init env a content =
     \<lparr>init_method = PUT,
      init_body = Some (Obj
        [(lit ''message'', Str (rf_message a @ lit '' (create)'')),
         (lit ''content'', Str (string_to_base64 env content))])\<rparr>"

definition rename_delete_init :: "rename_file_args \<Rightarrow> jsval \<Rightarrow> request_init" where
  "rename_delete_init a sha =
     \<lparr>init_method = DELETE,
      init_body = Some (Obj
        [(lit ''message'', Str (rf_message a @ lit '' (delete old)'')),
         (lit ''sha'', sha)])\<rparr>"

definition rename_file :: "'w env \<Rightarrow> rename_file_args \<Rightarrow> 'w net \<Rightarrow> 'w handler_result" where
  "rename_file env a st =
     (let (file, st1) = githubRequest env (contents_endpoint env (rf_repo a) (rf_oldPath a)) default_init st
      in case and_then file (\<lambda>f. and_then (get_prop f ''content'') (base64_to_string env)) of
           Inl e \<Rightarrow> (Inl e, st1)
         | Inr content \<Rightarrow>
             (let (created, st2) =
                    githubRequest env (contents_endpoint env (rf_repo a) (rf_newPath a))
                      (rename_create_init env a content) st1
              in case created of
                   Inl e \<Rightarrow> (Inl e, st2)
                 | Inr _ \<Rightarrow>
                     (case and_then file (\<lambda>f. get_prop f ''sha'') of
                        Inl e \<Rightarrow> (Inl e, st2)
                      | Inr sha \<Rightarrow>
                          (let (deleted, st3) =
                                 githubRequest env (contents_endpoint env (rf_repo a) (rf_oldPath a))
                                   (rename_delete_init a sha) st2
                           in (and_then deleted (\<lambda>_. Inr (JsonText (Obj
                                 [(lit ''success'', Bool True),
                                  (lit ''from'', Str (rf_oldPath a)),
                                  (lit ''to'', Str (rf_newPath a))]))), st3)))))"

section \<open>Project statistics\<close>

text \<open>
  \<^verbatim>\<open>Promise.all\<close>: it rejects with the error of the promise that rejects first, in the
  order the promises settle, and otherwise resolves to the values in the order of the
  array.
\<close>

fun rejections :: "('e + 'a) list \<Rightarrow> nat list \<Rightarrow> 'e list" where
  "rejections ps [] = []"
| "rejections ps (i # is) =
     (if i < length ps then (case ps ! i of Inl e \<Rightarrow> [e] | Inr _ \<Rightarrow> []) else [])
       @ rejections ps is"

definition promise_all :: "nat list \<Rightarrow> ('e + 'a) list \<Rightarrow> 'e + 'a list" where
  "promise_all order ps =
     (case rejections ps (order @ [0..<length ps]) of
        e # _ \<Rightarrow> Inl e
      | [] \<Rightarrow> Inr (map projr ps))"

definition stats_reply :: "jsval \<Rightarrow> jsval \<Rightarrow> jsval \<Rightarrow> js_error + content" where
  "stats_reply repoData languages contributors =
     and_then (get_prop repoData ''size'') (\<lambda>size.
     and_then (get_prop repoData ''stargazers_count'') (\<lambda>stars.
     and_then (get_prop repoData ''forks_count'') (\<lambda>forks.
     and_then (get_prop repoData ''open_issues_count'') (\<lambda>openIssues.
     and_then (get_prop contributors ''length'') (\<lambda>contributorsCount.
     and_then (get_prop repoData ''default_branch'') (\<lambda>defaultBranch.
     and_then (get_prop repoData ''created_at'') (\<lambda>createdAt.
     and_then (get_prop repoData ''pushed_at'') (\<lambda>lastPush.
       Inr (JsonText (Obj
         [(lit ''size'', size),
          (lit ''stars'', stars),
          (lit ''forks'', forks),
          (lit ''openIssues'', openIssues),
          (lit ''languages'', languages),
          (lit ''contributorsCount'', contributorsCount),
          (lit ''defaultBranch'', defaultBranch),
          (lit ''createdAt'', createdAt),
          (lit ''lastPush'', lastPush)]))))))))))"

text \<open>
  The four calls of \<^verbatim>\<open>get_project_stats\<close> are all started, in the order of the array,
  before any of them is awaited; the third has \<^verbatim>\<open>.catch(() => [])\<close> on it.
\<close>

definition get_project_stats :: "'w env \<Rightarrow> jsstring \<Rightarrow> 'w net \<Rightarrow> 'w handler_result" where
  "get_project_stats env repo st =
     (let (p0, st1) = githubRequest env (repo_endpoint env repo) default_init st;
          (p1, st2) = githubRequest env (repo_endpoint env repo @ lit ''/languages'') default_init st1;
          (p2, st3) = githubRequest env (repo_endpoint env repo @ lit ''/contributors'') default_init st2;
          p2' = (case p2 of Inl _ \<Rightarrow> Inr (Arr []) | Inr v \<Rightarrow> Inr v);
          (p3, st4) = githubRequest env (repo_endpoint env repo @ lit ''/commits?per_page=1'') default_init st3
      in (and_then (promise_all (settle_order env) [p0, p1, p2', p3])
            (\<lambda>vs. stats_reply (vs ! 0) (vs ! 1) (vs ! 2)), st4))"

section \<open>Issues\<close>

record list_issues_args =
  li_repo :: jsstring
  li_state :: "jsstring option"
  li_labels :: "jsstring option"

definition issues_url :: "'w env \<Rightarrow> list_issues_args \<Rightarrow> js_error + jsstring" where
  "issues_url env a =
     (let url = repo_endpoint env (li_repo a) @ lit ''/issues?state='' @ or_default (li_state a) ''open''
      in case li_labels a of
           None \<Rightarrow> Inr url
         | Some labels \<Rightarrow>
             if labels = [] then Inr url
             else and_then (encodeURIComponent labels) (\<lambda>e. Inr (url @ lit ''&labels='' @ e)))"

text \<open>The test of the filter, \<^verbatim>\<open>(i) => !i.pull_request\<close>.\<close>

definition not_pull_request :: "jsval \<Rightarrow> js_error + bool" where
  "not_pull_request i = and_then (get_prop i ''pull_request'') (\<lambda>v. Inr (\<not> truthy v))"

text \<open>
  An item of the upstream list that carries the marker of a pull request: its
  \<^verbatim>\<open>pull_request\<close> property is there and truthy (the upstream puts an object there).
\<close>

definition pull_request_marker :: "jsval \<Rightarrow> bool" where
  "pull_request_marker i =
     (case get_prop i ''pull_request'' of Inr v \<Rightarrow> truthy v | Inl e \<Rightarrow> False)"

definition format_issue :: "jsval \<Rightarrow> js_error + jsval" where
  "format_issue i =
     and_then (get_prop i ''number'') (\<lambda>number.
     and_then (get_prop i ''title'') (\<lambda>title.
     and_then (get_prop i ''state'') (\<lambda>state.
     and_then (and_then (get_prop i ''user'') (\<lambda>user. get_prop user ''login'')) (\<lambda>author.
     and_then (and_then (get_prop i ''labels'') (js_map ''i.labels'' (\<lambda>l. get_prop l ''name''))) (\<lambda>labels.
     and_then (get_prop i ''created_at'') (\<lambda>createdAt.
     and_then (get_prop i ''html_url'') (\<lambda>url.
       Inr (Obj
         [(lit ''number'', number),
          (lit ''title'', title),
          (lit ''state'', state),
          (lit ''author'', author),
          (lit ''labels'', labels),
          (lit ''createdAt'', createdAt),
          (lit ''url'', url)]))))))))"

definition list_issues :: "'w env \<Rightarrow> list_issues_args \<Rightarrow> 'w net \<Rightarrow> 'w handler_result" where
  "list_issues env a st =
     (case issues_url env a of
        Inl e \<Rightarrow> (Inl e, st)
      | Inr url \<Rightarrow>
          (let (issues, st1) = githubRequest env url default_init st
           in (and_then issues (\<lambda>v.
               and_then (js_filter ''issues'' not_pull_request v) (\<lambda>kept.
               and_then (js_map ''issues.filter(...)'' format_issue kept) (\<lambda>formatted.
                 Inr (JsonText formatted)))), st1)))"

section \<open>Listings of the conventional folders\<close>

text \<open>
  The arrow function the listings map over a directory: \<^verbatim>\<open>item.name\<close> with the given
  suffixes replaced by the empty string, one \<^verbatim>\<open>replace\<close> after the other, and
  \<^verbatim>\<open>item.path\<close>.
\<close>

fun strip_suffixes :: "string list \<Rightarrow> jsval \<Rightarrow> js_error + jsval" where
  "strip_suffixes [] v = Inr v"
| "strip_suffixes (p # ps) v = and_then (js_replace ''item.name'' p [] v) (strip_suffixes ps)"

definition name_and_path :: "string list \<Rightarrow> jsval \<Rightarrow> js_error + jsval" where
  "name_and_path pats item =
     and_then (and_then (get_prop item ''name'') (strip_suffixes pats)) (\<lambda>name.
     and_then (get_prop item ''path'') (\<lambda>path.
       Inr (Obj [(lit ''name'', name), (lit ''path'', path)])))"

text \<open>The result of a \<^verbatim>\<open>catch\<close> branch: \<^verbatim>\<open>{ error: "No ... found" }\<close>.\<close>

definition absence :: "string \<Rightarrow> content" where
  "absence msg = JsonText (Obj [(lit ''error'', Str (lit msg))])"


definition list_components :: "'w env \<Rightarrow> jsstring \<Rightarrow> 'w net \<Rightarrow> 'w handler_result" where
  "list_components env repo st =
     (let (contents, st1) =
            githubRequest env (contents_endpoint env repo (lit ''src/components/ui'')) default_init st
      in case and_then contents (js_map ''contents'' (name_and_path [''.tsx''])) of
           Inr components \<Rightarrow> (Inr (JsonText components), st1)
         | Inl _ \<Rightarrow> (Inr (absence ''No UI components found''), st1))"

definition is_tsx_file :: "jsval \<Rightarrow> js_error + bool" where
  "is_tsx_file item =
     and_then (get_prop item ''type'') (\<lambda>t.
       if t = Str (lit ''file'')
       then and_then (get_prop item ''name'') (js_endsWith ''item.name'' ''.tsx'')
       else Inr False)"

definition list_custom_components :: "'w env \<Rightarrow> jsstring \<Rightarrow> 'w net \<Rightarrow> 'w handler_result" where
  "list_custom_components env repo st =
     (let (contents, st1) =
            githubRequest env (contents_endpoint env repo (lit ''src/components'')) default_init st
      in case and_then contents (\<lambda>v.
              and_then (js_filter ''contents'' is_tsx_file v)
                (js_map ''contents.filter(...)'' (name_and_path [''.tsx'']))) of
           Inr components \<Rightarrow> (Inr (JsonText components), st1)
         | Inl _ \<Rightarrow> (Inr (absence ''No custom components found''), st1))"

definition list_pages :: "'w env \<Rightarrow> jsstring \<Rightarrow> 'w net \<Rightarrow> 'w handler_result" where
  "list_pages env repo st =
     (let (contents, st1) =
            githubRequest env (contents_endpoint env repo (lit ''src/pages'')) default_init st
      in case and_then contents (js_map ''contents'' (name_and_path [''.tsx''])) of
           Inr pages \<Rightarrow> (Inr (JsonText pages), st1)
         | Inl _ \<Rightarrow> (Inr (absence ''No pages found''), st1))"

definition list_hooks :: "'w env \<Rightarrow> jsstring \<Rightarrow> 'w net \<Rightarrow> 'w handler_result" where
  "list_hooks env repo st =
     (let (contents, st1) =
            githubRequest env (contents_endpoint env repo (lit ''src/hooks'')) default_init st
      in case and_then contents (js_map ''contents'' (name_and_path [''.ts'', ''.tsx''])) of
           Inr hooks \<Rightarrow> (Inr (JsonText hooks), st1)
         | Inl _ \<Rightarrow> (Inr (absence ''No hooks found''), st1))"

definition list_contexts :: "'w env \<Rightarrow> jsstring \<Rightarrow> 'w net \<Rightarrow> 'w handler_result" where
  "list_contexts env repo st =
     (let (contents, st1) =
            githubRequest env (contents_endpoint env repo (lit ''src/contexts'')) default_init st
      in case and_then contents (js_map ''contents'' (name_and_path [''.tsx'', ''.ts''])) of
           Inr contexts \<Rightarrow> (Inr (JsonText contexts), st1)
         | Inl _ \<Rightarrow> (Inr (absence ''No contexts found''), st1))"

text \<open>\<^verbatim>\<open>list_utils\<close> tries \<^verbatim>\<open>src/utils\<close> and, when that fails, \<^verbatim>\<open>src/lib\<close>.\<close>

definition list_utils :: "'w env \<Rightarrow> jsstring \<Rightarrow> 'w net \<Rightarrow> 'w handler_result" where
  "list_utils env repo st =
     (let (contents, st1) =
            githubRequest env (contents_endpoint env repo (lit ''src/utils'')) default_init st
      in case and_then contents (js_map ''contents'' (name_and_path [''.ts'', ''.tsx''])) of
           Inr utils \<Rightarrow> (Inr (JsonText utils), st1)
         | Inl _ \<Rightarrow>
             (let (libContents, st2) =
                    githubRequest env (contents_endpoint env repo (lit ''src/lib'')) default_init st1
              in case and_then libContents (js_map ''libContents'' (name_and_path [''.ts'', ''.tsx''])) of
                   Inr lib \<Rightarrow> (Inr (JsonText lib), st2)
                 | Inl _ \<Rightarrow> (Inr (absence ''No utils/lib found''), st2)))"

definition list_types :: "'w env \<Rightarrow> jsstring \<Rightarrow> 'w net \<Rightarrow> 'w handler_result" where
  "list_types env repo st =
     (let (contents, st1) =
            githubRequest env (contents_endpoint env repo (lit ''src/types'')) default_init st
      in case and_then contents (js_map ''contents'' (name_and_path [''.ts'', ''.d.ts''])) of
           Inr types \<Rightarrow> (Inr (JsonText types), st1)
         | Inl _ \<Rightarrow> (Inr (absence ''No types folder found''), st1))"

definition name_type_path :: "jsval \<Rightarrow> js_error + jsval" where
  "name_type_path item =
     and_then (get_prop item ''name'') (\<lambda>name.
     and_then (get_prop item ''type'') (\<lambda>type.
     and_then (get_prop item ''path'') (\<lambda>path.
       Inr (Obj [(lit ''name'', name), (lit ''type'', type), (lit ''path'', path)]))))"

definition list_integrations :: "'w env \<Rightarrow> jsstring \<Rightarrow> 'w net \<Rightarrow> 'w handler_result" where
  "list_integrations env repo st =
     (let (contents, st1) =
            githubRequest env (contents_endpoint env repo (lit ''src/integrations'')) default_init st
      in case and_then contents (js_map ''contents'' name_type_path) of
           Inr integrations \<Rightarrow> (Inr (JsonText integrations), st1)
         | Inl _ \<Rightarrow> (Inr (absence ''No integrations found''), st1))"

section \<open>The build URL\<close>

record build_url_args =
  bu_prompt :: jsstring
  bu_images :: "jsstring list option"

text \<open>\<^verbatim>\<open>xs.join(sep)\<close>.\<close>

fun js_join :: "jsstring \<Rightarrow> jsstring list \<Rightarrow> jsstring" where
  "js_join sep [] = []"
| "js_join sep [x] = x"
| "js_join sep (x # y # ys) = x @ sep @ js_join sep (y # ys)"

definition build_prefix :: jsstring where
  "build_prefix = lit ''https://lovable.dev/?autosubmit=true#prompt=''"

definition image_params :: "jsstring list \<Rightarrow> js_error + jsstring" where
  "image_params images =
     and_then (map_throwing (\<lambda>img. and_then (encodeURIComponent img) (\<lambda>e. Inr (lit ''images='' @ e)))
             (take 10 images))
       (\<lambda>ps. Inr (js_join (lit ''&'') ps))"

definition generate_build_url :: "build_url_args \<Rightarrow> 'w net \<Rightarrow> 'w handler_result" where
  "generate_build_url a st =
     (case encodeURIComponent (bu_prompt a) of
        Inl e \<Rightarrow> (Inl e, st)
      | Inr encodedPrompt \<Rightarrow>
          (let url = build_prefix @ encodedPrompt;
               url' = (case bu_images a of
                         None \<Rightarrow> Inr url
                       | Some images \<Rightarrow>
                           if length images > 0
                           then and_then (image_params images) (\<lambda>imageParams. Inr (url @ lit ''&'' @ imageParams))
                           else Inr url)
           in case url' of
                Inl e \<Rightarrow> (Inl e, st)
              | Inr u \<Rightarrow>
                  (Inr (JsonText (Obj
                     [(lit ''url'', Str u),
                      (lit ''promptLength'', Num (int (length (bu_prompt a))))])), st)))"

section \<open>The session table and the two endpoints\<close>

text \<open>
  \<^verbatim>\<open>const transports: Record<string, SSEServerTransport> = {}\<close> is an object literal: its own
  properties are the sessions, and a name it does not own is looked up in
  \<^verbatim>\<open>Object.prototype\<close>, whose properties are all truthy (functions, and the prototype
  itself under \<^verbatim>\<open>__proto__\<close>).
\<close>

record transport =
  sessionId :: jsstring

definition object_prototype_keys :: "string list" where
  "object_prototype_keys =
     [''constructor'', ''__defineGetter__'', ''__defineSetter__'', ''hasOwnProperty'',
      ''__lookupGetter__'', ''__lookupSetter__'', ''isPrototypeOf'', ''propertyIsEnumerable'',
      ''toString'', ''valueOf'', ''__proto__'', ''toLocaleString'']"

datatype 'a property = OwnProperty 'a | InheritedProperty | NoProperty

text \<open>
  The part of the transport library. \<^verbatim>\<open>mcpServer.connect(transport)\<close> throws, or it starts
  the stream; on its way it installs the library's own \<^verbatim>\<open>onclose\<close> on the transport. A
  library that chains the callback it finds there keeps the one the handler has set; a
  library that assigns its own replaces it. Which of the two the library does is not
  settled by the repository. When a stream closes, for whatever cause, the library calls
  what \<^verbatim>\<open>transport.onclose\<close> then holds.
\<close>

datatype connect_outcome = ConnectThrows | ConnectKeepsOnclose | ConnectReplacesOnclose

datatype onclose_slot = HandlerCallback | LibraryCallback

text \<open>
  The state of the process: the session table; the sessions whose transport was handed a
  posted message (\<^verbatim>\<open>transport.handlePostMessage\<close>, the way into the dispatcher), in the
  order of the posts; and the open streams, each with what the \<^verbatim>\<open>onclose\<close> of its
  transport holds.
\<close>

record server =
  transports :: "jsstring \<rightharpoonup> transport"
  handled :: "jsstring list"
  streams :: "jsstring \<rightharpoonup> onclose_slot"

definition lookup_transport :: "server \<Rightarrow> jsstring \<Rightarrow> transport property" where
  "lookup_transport srv k =
     (case transports srv k of
        Some t \<Rightarrow> OwnProperty t
      | None \<Rightarrow> if k \<in> set (map lit object_prototype_keys) then InheritedProperty else NoProperty)"

text \<open>
  \<^verbatim>\<open>app.get("/sse")\<close>. The identifier is the one the new transport carries (the library
  draws a random UUID). The handler stores the transport, sets \<^verbatim>\<open>transport.onclose\<close> to
  the callback \<open>onclose\<close> (which deletes the entry) and then connects; when connecting
  throws it deletes the entry again.
\<close>

definition onclose :: "jsstring \<Rightarrow> server \<Rightarrow> server" where
  "onclose sid srv = srv\<lparr>transports := (transports srv)(sid := None)\<rparr>"

definition sse_get :: "jsstring \<Rightarrow> connect_outcome \<Rightarrow> server \<Rightarrow> server" where
  "sse_get sid connected srv =
     (let srv1 = srv\<lparr>transports := (transports srv)(sid \<mapsto> \<lparr>sessionId = sid\<rparr>)\<rparr>
      in case connected of
           ConnectThrows \<Rightarrow> srv1\<lparr>transports := (transports srv1)(sid := None)\<rparr>
         | ConnectKeepsOnclose \<Rightarrow> srv1\<lparr>streams := (streams srv1)(sid \<mapsto> HandlerCallback)\<rparr>
         | ConnectReplacesOnclose \<Rightarrow> srv1\<lparr>streams := (streams srv1)(sid \<mapsto> LibraryCallback)\<rparr>)"

text \<open>
  The stream of a session closes: the library calls what the \<^verbatim>\<open>onclose\<close> of the transport
  holds, the handler's callback or only its own, which leaves the table alone.
\<close>

definition stream_closed :: "jsstring \<Rightarrow> server \<Rightarrow> server" where
  "stream_closed sid srv =
     (case streams srv sid of
        None \<Rightarrow> srv
      | Some HandlerCallback \<Rightarrow> onclose sid (srv\<lparr>streams := (streams srv)(sid := None)\<rparr>)
      | Some LibraryCallback \<Rightarrow> srv\<lparr>streams := (streams srv)(sid := None)\<rparr>)"

text \<open>
  \<^verbatim>\<open>app.post("/messages")\<close>. \<open>session_id\<close> is \<^verbatim>\<open>req.query.sessionId\<close>, absent or a string.
  What \<^verbatim>\<open>transport.handlePostMessage\<close> does is the library's: it answers the request
  itself, or throws, before or after the headers are sent.
\<close>

datatype post_outcome = Responded nat | ThrewBeforeHeaders | ThrewAfterHeaders nat

datatype reply = Reply nat jsval | TransportReply nat

definition error_reply :: "nat \<Rightarrow> string \<Rightarrow> reply" where
  "error_reply code msg = Reply code (Obj [(lit ''error'', Str (lit msg))])"

definition post_messages ::
    "(transport \<Rightarrow> post_outcome) \<Rightarrow> jsstring option \<Rightarrow> server \<Rightarrow> reply \<times> server" where
  "post_messages handlePostMessage session_id srv =
     (case session_id of
        None \<Rightarrow> (error_reply 400 ''Missing sessionId'', srv)
      | Some sid \<Rightarrow>
          if sid = [] then (error_reply 400 ''Missing sessionId'', srv)
          else
            (case lookup_transport srv sid of
               NoProperty \<Rightarrow> (error_reply 404 ''Session not found'', srv)
             | InheritedProperty \<Rightarrow> (error_reply 500 ''Internal server error'', srv)
             | OwnProperty t \<Rightarrow>
                 (case handlePostMessage t of
                    Responded code \<Rightarrow> TransportReply code
                  | ThrewBeforeHeaders \<Rightarrow> error_reply 500 ''Internal server error''
                  | ThrewAfterHeaders code \<Rightarrow> TransportReply code,
                  srv\<lparr>handled := handled srv @ [sid]\<rparr>)))"

text \<open>What happens to the process, one event after the other.\<close>

datatype event =
    SseGet jsstring connect_outcome
  | StreamClosed jsstring
  | PostMessage "jsstring option"

fun step :: "(transport \<Rightarrow> post_outcome) \<Rightarrow> server \<Rightarrow> event \<Rightarrow> server" where
  "step h srv (SseGet sid connected) = sse_get sid connected srv"
| "step h srv (StreamClosed sid) = stream_closed sid srv"
| "step h srv (PostMessage session_id) = snd (post_messages h session_id srv)"

definition run :: "(transport \<Rightarrow> post_outcome) \<Rightarrow> server \<Rightarrow> event list \<Rightarrow> server" where
  "run h srv evs = foldl (step h) srv evs"

fun opens :: "jsstring \<Rightarrow> event \<Rightarrow> bool" where
  "opens sid (SseGet sid' connected) = (sid' = sid)"
| "opens sid ev = False"


section \<open>Example inputs\<close>



definition empty_server :: server where
  "empty_server = \<lparr>transports = Map.empty, handled = [], streams = Map.empty\<rparr>"

text \<open>
  Example upstreams. \<open>by_method\<close> answers a request by its method alone; \<open>in_turn\<close>
  answers the requests one after the other from a list, the world being the number of
  requests answered so far. In the examples the two conversions of \<^verbatim>\<open>Buffer\<close> leave a
  string as it is, and decoding anything but a string throws.
\<close>

definition respond :: "nat \<Rightarrow> string \<Rightarrow> jsval \<Rightarrow> js_error + http_response" where
  "respond code body v = Inr \<lparr>status = code, text_body = Inr (lit body), json_body = Inr v\<rparr>"

definition demo_decode :: "jsval \<Rightarrow> js_error + jsstring" where
  "demo_decode v =
     (case v of
        Str s \<Rightarrow> Inr s
      | _ \<Rightarrow> Inl (Thrown TypeError (lit ''The first argument must be of type string'')))"

definition by_method :: "(http_method \<Rightarrow> js_error + http_response) \<Rightarrow> unit env" where
  "by_method answer =
     \<lparr>GITHUB_TOKEN = lit ''token'', GITHUB_OWNER = lit ''octo'',
      fetch = (\<lambda>w req. (answer (req_method req), w)),
      base64_to_string = demo_decode, string_to_base64 = (\<lambda>s. s),
      settle_order = [0, 1, 2, 3]\<rparr>"

definition in_turn :: "(js_error + http_response) list \<Rightarrow> nat env" where
  "in_turn answers =
     \<lparr>GITHUB_TOKEN = lit ''token'', GITHUB_OWNER = lit ''octo'',
      fetch = (\<lambda>n req. (answers ! min n (length answers - 1), Suc n)),
      base64_to_string = demo_decode, string_to_base64 = (\<lambda>s. s),
      settle_order = [3, 2, 1, 0]\<rparr>"

definition start :: "'w \<Rightarrow> 'w net" where
  "start w = \<lparr>world = w, calls = []\<rparr>"

definition not_found :: "js_error + http_response" where
  "not_found = respond 404 ''Not Found'' (Obj [(lit ''message'', Str (lit ''Not Found''))])"

text \<open>What the upstream lists for a repository with one issue and one pull request.\<close>

definition demo_issue :: jsval where
  "demo_issue = Obj
     [(lit ''number'', Num 7),
      (lit ''title'', Str (lit ''Crash on start'')),
      (lit ''state'', Str (lit ''open'')),
      (lit ''user'', Obj [(lit ''login'', Str (lit ''ada''))]),
      (lit ''labels'', Arr [Obj [(lit ''name'', Str (lit ''bug''))]]),
      (lit ''created_at'', Str (lit ''2025-01-01T00:00:00Z'')),
      (lit ''html_url'', Str (lit ''https://github.com/octo/demo/issues/7''))]"

definition demo_pull :: jsval where
  "demo_pull = Obj
     [(lit ''number'', Num 8),
      (lit ''title'', Str (lit ''Fix crash'')),
      (lit ''state'', Str (lit ''open'')),
      (lit ''user'', Obj [(lit ''login'', Str (lit ''bob''))]),
      (lit ''labels'', Arr []),
      (lit ''created_at'', Str (lit ''2025-01-02T00:00:00Z'')),
      (lit ''html_url'', Str (lit ''https://github.com/octo/demo/pull/8'')),
      (lit ''pull_request'', Obj [(lit ''url'', Str (lit ''https://api.github.com/repos/octo/demo/pulls/8''))])]"

definition demo_issue_formatted :: jsval where
  "demo_issue_formatted = Obj
     [(lit ''number'', Num 7),
      (lit ''title'', Str (lit ''Crash on start'')),
      (lit ''state'', Str (lit ''open'')),
      (lit ''author'', Str (lit ''ada'')),
      (lit ''labels'', Arr [Str (lit ''bug'')]),
      (lit ''createdAt'', Str (lit ''2025-01-01T00:00:00Z'')),
      (lit ''url'', Str (lit ''https://github.com/octo/demo/issues/7''))]"

definition issues_upstream :: "unit env" where
  "issues_upstream = by_method (\<lambda>m. respond 200 ''[...]'' (Arr [demo_issue, demo_pull]))"

definition demo_issues_args :: list_issues_args where
  "demo_issues_args = \<lparr>li_repo = lit ''demo'', li_state = None, li_labels = None\<rparr>"

text \<open>An upstream that answers every request with 404.\<close>

definition missing_upstream :: "unit env" where
  "missing_upstream = by_method (\<lambda>m. not_found)"

text \<open>
  Two prompts: plain text, and the single code unit 0xD800 (a high surrogate with no low
  surrogate after it, as the JSON text \<^verbatim>\<open>"\ud800"\<close> of a request gives).
\<close>

definition plain_prompt :: build_url_args where
  "plain_prompt = \<lparr>bu_prompt = lit ''todo app'', bu_images = None\<rparr>"

definition lone_surrogate_prompt :: build_url_args where
  "lone_surrogate_prompt = \<lparr>bu_prompt = [0xD800], bu_images = None\<rparr>"

text \<open>Answers of the upstream to reads and writes of a file, and arguments for the file operations.\<close>

definition conflict :: "js_error + http_response" where
  "conflict = respond 409 ''Conflict'' (Obj [(lit ''message'', Str (lit ''is at a newer version''))])"

definition server_error :: "js_error + http_response" where
  "server_error = respond 500 ''Server Error'' (Obj [])"

definition committed :: "js_error + http_response" where
  "committed = respond 201 ''Created'' (Obj [(lit ''commit'', Obj [(lit ''sha'', Str (lit ''c0ffee''))])])"

definition demo_file :: jsval where
  "demo_file = Obj [(lit ''content'', Str (lit ''aGVsbG8='')), (lit ''sha'', Str (lit ''abc123''))]"

definition found :: "js_error + http_response" where
  "found = respond 200 ''OK'' demo_file"

definition update_args :: update_file_args where
  "update_args =
     \<lparr>uf_repo = lit ''demo'', uf_path = lit ''README.md'', uf_content = lit ''hello'',
      uf_message = lit ''update'', uf_branch = None\<rparr>"

definition delete_args :: delete_file_args where
  "delete_args =
     \<lparr>df_repo = lit ''demo'', df_path = lit ''README.md'', df_message = lit ''delete'',
      df_branch = None\<rparr>"

definition rename_args :: rename_file_args where
  "rename_args =
     \<lparr>rf_repo = lit ''demo'', rf_oldPath = lit ''README.md'', rf_newPath = lit ''README.txt'',
      rf_message = lit ''rename''\<rparr>"

text \<open>
  An upstream whose reads fail with 500 and whose writes succeed; one that finds the file
  and accepts the creation but answers the deletion with 409; one that answers everything
  with 409; and one that answers five requests in turn: found, 409, found, created, 409.
\<close>

definition read_broken_upstream :: "unit env" where
  "read_broken_upstream =
     by_method (\<lambda>m. case m of GET \<Rightarrow> server_error | PUT \<Rightarrow> committed | DELETE \<Rightarrow> committed)"

definition half_renamed_upstream :: "unit env" where
  "half_renamed_upstream =
     by_method (\<lambda>m. case m of GET \<Rightarrow> found | PUT \<Rightarrow> committed | DELETE \<Rightarrow> conflict)"

definition refusing_upstream :: "unit env" where
  "refusing_upstream = by_method (\<lambda>m. conflict)"

definition stale_upstream :: "nat env" where
  "stale_upstream = in_turn [found, conflict, found, committed, conflict]"

text \<open>
  Answers to the four requests of the statistics, in the order they are sent; the third
  and the fourth answer are left open.
\<close>

definition repo_json :: jsval where
  "repo_json = Obj
     [(lit ''size'', Num 120),
      (lit ''stargazers_count'', Num 3),
      (lit ''forks_count'', Num 1),
      (lit ''open_issues_count'', Num 2),
      (lit ''default_branch'', Str (lit ''main'')),
      (lit ''created_at'', Str (lit ''2025-01-01T00:00:00Z'')),
      (lit ''pushed_at'', Str (lit ''2025-02-01T00:00:00Z''))]"

definition languages_json :: jsval where
  "languages_json = Obj [(lit ''TypeScript'', Num 1000)]"

definition stats_json :: "int \<Rightarrow> jsval" where
  "stats_json n = Obj
     [(lit ''size'', Num 120),
      (lit ''stars'', Num 3),
      (lit ''forks'', Num 1),
      (lit ''openIssues'', Num 2),
      (lit ''languages'', languages_json),
      (lit ''contributorsCount'', Num n),
      (lit ''defaultBranch'', Str (lit ''main'')),
      (lit ''createdAt'', Str (lit ''2025-01-01T00:00:00Z'')),
      (lit ''lastPush'', Str (lit ''2025-02-01T00:00:00Z''))]"

definition stats_upstream :: "js_error + http_response \<Rightarrow> jsval \<Rightarrow> nat env" where
  "stats_upstream contributors commits =
     in_turn [respond 200 ''OK'' repo_json, respond 200 ''OK'' languages_json, contributors,
              respond 200 ''OK'' commits]"

definition forbidden :: "js_error + http_response" where
  "forbidden = respond 403 ''Forbidden'' (Obj [])"

definition two_contributors :: "js_error + http_response" where
  "two_contributors = respond 200 ''OK''
     (Arr [Obj [(lit ''login'', Str (lit ''ada''))], Obj [(lit ''login'', Str (lit ''bob''))]])"

definition commits_a :: jsval where
  "commits_a = Arr [Obj [(lit ''sha'', Str (lit ''aaaaaaa''))]]"

definition commits_b :: jsval where
  "commits_b = Arr [Obj [(lit ''sha'', Str (lit ''bbbbbbb''))]]"

section \<open>Facts about the model\<close>

lemma unat_of_char16: "unat (of_char c :: 16 word) = of_char c"
proof -
  have "(of_char c :: nat) mod 256 = of_char c" by simp
  then have "(of_char c :: nat) < 256"
    by (metis mod_less_divisor zero_less_numeral)
  then have lt: "(of_char c :: nat) < 65536" by linarith
  have "unat (of_char c :: 16 word) = unat (of_nat (of_char c) :: 16 word)"
    by (simp add: of_nat_of_char)
  also have "\<dots> = of_char c" using lt by (simp add: unat_of_nat)
  finally show ?thesis .
qed

lemma of_char16_eq [simp]: "((of_char c :: 16 word) = of_char d) = (c = d)"
proof
  assume "(of_char c :: 16 word) = of_char d"
  then have "unat (of_char c :: 16 word) = unat (of_char d :: 16 word)" by simp
  then show "c = d" by (simp only: unat_of_char16 of_char_eq_iff)
qed simp

lemma lit_eq [simp]: "(lit a = lit b) = (a = b)"
proof -
  have "inj (of_char :: char \<Rightarrow> 16 word)" by (rule injI) simp
  then show ?thesis unfolding lit_def by (rule inj_map_eq_map)
qed

lemma lit_Nil [simp]: "(lit a = []) = (a = [])" "([] = lit a) = (a = [])"
  by (auto simp: lit_def)

lemma lit_append: "lit a @ lit b = lit (a @ b)"
  by (simp add: lit_def)

lemma and_then_Inr: "and_then m f = Inr y \<Longrightarrow> \<exists>x. m = Inr x \<and> f x = Inr y"
  by (cases m) auto

lemma array_receiver_Inr: "array_receiver w k v = Inr xs \<Longrightarrow> v = Arr xs"
  by (cases v) auto

lemma filter_throwing_Inr:
  "filter_throwing p xs = Inr ys \<Longrightarrow>
     ys = filter (\<lambda>x. p x = Inr True) xs \<and> (\<forall>x\<in>set xs. \<exists>b. p x = Inr b)"
  by (induction xs arbitrary: ys) (auto split: sum.splits if_splits)

lemma map_throwing_Inr:
  "map_throwing f xs = Inr ys \<Longrightarrow> list_all2 (\<lambda>x y. f x = Inr y) xs ys"
  by (induction xs arbitrary: ys) (auto split: sum.splits)

text \<open>Every call of \<^verbatim>\<open>githubRequest\<close> sends exactly one request.\<close>

lemma githubRequest_calls:
  "githubRequest env ep i st = (r, st') \<Longrightarrow> calls st' = calls st @ [build_request env ep i]"
  by (auto simp: githubRequest_def Let_def split: prod.splits)

text \<open>The example upstreams.\<close>

lemma by_method_simps [simp]:
  "fetch (by_method f) w req = (f (req_method req), w)"
  "GITHUB_OWNER (by_method f) = lit ''octo''"
  "base64_to_string (by_method f) = demo_decode"
  "string_to_base64 (by_method f) s = s"
  "settle_order (by_method f) = [0, 1, 2, 3]"
  by (simp_all add: by_method_def)

lemma githubRequest_by_method:
  "githubRequest (by_method f) ep i st
     = (and_then (f (init_method i)) response_result,
        \<lparr>world = world st, calls = calls st @ [build_request (by_method f) ep i]\<rparr>)"
  by (simp add: githubRequest_def Let_def build_request_def)

lemma respond_result:
  "and_then (respond code body v) response_result
     = (if 200 \<le> code \<and> code \<le> 299 then Inr v else Inl (github_api_error code (lit body)))"
  by (simp add: respond_def response_result_def response_ok_def)

lemma in_turn_simps [simp]:
  "fetch (in_turn answers) n req = (answers ! min n (length answers - 1), Suc n)"
  "GITHUB_OWNER (in_turn answers) = lit ''octo''"
  "base64_to_string (in_turn answers) = demo_decode"
  "string_to_base64 (in_turn answers) s = s"
  "settle_order (in_turn answers) = [3, 2, 1, 0]"
  by (simp_all add: in_turn_def)

lemma githubRequest_in_turn:
  "githubRequest (in_turn answers) ep i st
     = (and_then (answers ! min (world st) (length answers - 1)) response_result,
        \<lparr>world = Suc (world st), calls = calls st @ [build_request (in_turn answers) ep i]\<rparr>)"
  by (simp add: githubRequest_def Let_def)

lemma rejects_request:
  assumes "rejects env st ep i code body"
  shows "\<exists>st'. githubRequest env ep i st = (Inl (github_api_error code body), st')"
  using assms
  by (auto simp: rejects_def githubRequest_def Let_def response_result_def response_ok_def)

lemma req_method_build_request [simp]: "req_method (build_request env ep i) = init_method i"
  by (simp add: build_request_def)

lemma init_methods [simp]:
  "init_method default_init = GET"
  "init_method (update_file_init env ua sha) = PUT"
  "init_method (delete_file_init da sha) = DELETE"
  "init_method (rename_create_init env ra content) = PUT"
  "init_method (rename_delete_init ra sha) = DELETE"
  by (simp_all add: default_init_def update_file_init_def delete_file_init_def
        rename_create_init_def rename_delete_init_def)

section \<open>The session table\<close>





text \<open>
  Where the library has replaced the callback, nothing but a new stream with the same
  identifier touches the entry again: it outlives its stream.
\<close>

lemma step_keeps_stale:
  "transports srv sid = Some t \<Longrightarrow> streams srv sid \<noteq> Some HandlerCallback \<Longrightarrow> \<not> opens sid ev
     \<Longrightarrow> transports (step h srv ev) sid = Some t
       \<and> streams (step h srv ev) sid \<noteq> Some HandlerCallback"
  by (cases ev)
     (auto simp: sse_get_def stream_closed_def onclose_def post_messages_def Let_def
           split: option.splits property.splits post_outcome.splits connect_outcome.splits
             onclose_slot.splits)

lemma replaced_callback_never_removes:
  assumes "list_all (\<lambda>ev. \<not> opens sid ev) evs"
  shows "lookup_transport (run h srv (SseGet sid ConnectReplacesOnclose # evs)) sid
           = OwnProperty \<lparr>sessionId = sid\<rparr>"
proof -
  have "transports srv' sid = Some t \<Longrightarrow> streams srv' sid \<noteq> Some HandlerCallback
      \<Longrightarrow> list_all (\<lambda>ev. \<not> opens sid ev) evs
      \<Longrightarrow> transports (foldl (step h) srv' evs) sid = Some t" for srv' t
  proof (induction evs arbitrary: srv')
    case Nil
    then show ?case by simp
  next
    case (Cons ev evs)
    from Cons.prems have "transports (step h srv' ev) sid = Some t
        \<and> streams (step h srv' ev) sid \<noteq> Some HandlerCallback"
      by (intro step_keeps_stale) auto
    with Cons.IH[of "step h srv' ev"] Cons.prems(3) show ?case by simp
  qed
  from this[of "sse_get sid ConnectReplacesOnclose srv" "\<lparr>sessionId = sid\<rparr>"] assms
  show ?thesis
    by (simp add: run_def lookup_transport_def sse_get_def)
qed






section \<open>The message endpoint\<close>

text \<open>
  A post without a session identifier (absent or empty) is answered 400, and a post whose
  identifier names no property of the table at all is answered 404; in both cases the
  server is left as it was, so no transport was handed the message.
\<close>

lemma post_messages_rejections:
  "post_messages h None srv = (error_reply 400 ''Missing sessionId'', srv)"
  "post_messages h (Some []) srv = (error_reply 400 ''Missing sessionId'', srv)"
  "sid \<noteq> [] \<Longrightarrow> lookup_transport srv sid = NoProperty
     \<Longrightarrow> post_messages h (Some sid) srv = (error_reply 404 ''Session not found'', srv)"
  by (simp_all add: post_messages_def)

text \<open>A message reaches a transport only when the identifier is a session of the table.\<close>

lemma post_messages_dispatch:
  "handled (snd (post_messages h q srv)) \<noteq> handled srv
     \<Longrightarrow> \<exists>sid t. q = Some sid \<and> transports srv sid = Some t"
  by (auto simp: post_messages_def lookup_transport_def
           split: option.splits if_splits property.splits)

text \<open>
  A post whose identifier is the name of a property the table inherits, and no session,
  is answered 500.
\<close>

lemma post_messages_inherited:
  assumes "k \<in> set object_prototype_keys" and "transports srv (lit k) = None"
  shows "post_messages h (Some (lit k)) srv = (error_reply 500 ''Internal server error'', srv)"
proof -
  from assms(1) have "k \<noteq> []" by (auto simp: object_prototype_keys_def)
  with assms show ?thesis
    by (simp add: post_messages_def lookup_transport_def)
qed

text \<open>
  C2. The identifier \<^verbatim>\<open>constructor\<close> is no session of the empty table, yet
  \<^verbatim>\<open>transports["constructor"]\<close> is the inherited \<^verbatim>\<open>Object\<close> function, which is truthy: the
  404 branch is passed over, calling \<^verbatim>\<open>handlePostMessage\<close> on it throws inside the
  \<^verbatim>\<open>try\<close>, and the answer is 500. No transport is handed the message.
\<close>

theorem post_inherited_name:
  "post_messages h (Some (lit ''constructor'')) empty_server
     = (error_reply 500 ''Internal server error'', empty_server)
   \<and> transports empty_server (lit ''constructor'') = None"
  by (simp add: post_messages_def lookup_transport_def empty_server_def
        object_prototype_keys_def)

section \<open>Renaming a file\<close>

text \<open>
  C3, as the code has it. When the old file was read and the create-at-new-path request
  succeeded, and the delete-at-old-path request then fails, \<^verbatim>\<open>rename_file\<close> fails with
  the error of the delete request and nothing else: the failure is the plain rejection of
  \<^verbatim>\<open>githubRequest\<close>, with no word of the copy that now exists. The three requests (read,
  create, delete) have been sent, in this order.
\<close>

theorem rename_file_delete_fails:
  assumes "githubRequest env (contents_endpoint env (rf_repo a) (rf_oldPath a)) default_init st
             = (Inr file, st1)"
      and "and_then (get_prop file ''content'') (base64_to_string env) = Inr content"
      and "githubRequest env (contents_endpoint env (rf_repo a) (rf_newPath a))
             (rename_create_init env a content) st1 = (Inr created, st2)"
      and "get_prop file ''sha'' = Inr sha"
      and "githubRequest env (contents_endpoint env (rf_repo a) (rf_oldPath a))
             (rename_delete_init a sha) st2 = (Inl e, st3)"
  shows "rename_file env a st = (Inl e, st3)
       \<and> calls st3 = calls st @
           [build_request env (contents_endpoint env (rf_repo a) (rf_oldPath a)) default_init,
            build_request env (contents_endpoint env (rf_repo a) (rf_newPath a))
              (rename_create_init env a content),
            build_request env (contents_endpoint env (rf_repo a) (rf_oldPath a))
              (rename_delete_init a sha)]"
proof
  from assms show "rename_file env a st = (Inl e, st3)"
    by (simp add: rename_file_def)
  from githubRequest_calls[OF assms(1)] githubRequest_calls[OF assms(3)]
    githubRequest_calls[OF assms(5)]
  show "calls st3 = calls st @
           [build_request env (contents_endpoint env (rf_repo a) (rf_oldPath a)) default_init,
            build_request env (contents_endpoint env (rf_repo a) (rf_newPath a))
              (rename_create_init env a content),
            build_request env (contents_endpoint env (rf_repo a) (rf_oldPath a))
              (rename_delete_init a sha)]"
    by simp
qed

lemma half_renamed_read:
  "githubRequest half_renamed_upstream ep default_init st
     = (Inr demo_file,
        \<lparr>world = (), calls = calls st @ [build_request half_renamed_upstream ep default_init]\<rparr>)"
  by (simp add: half_renamed_upstream_def githubRequest_by_method found_def respond_result)

lemma half_renamed_create:
  "githubRequest half_renamed_upstream ep (rename_create_init env a content) st
     = (Inr (Obj [(lit ''commit'', Obj [(lit ''sha'', Str (lit ''c0ffee''))])]),
        \<lparr>world = (),
         calls = calls st @ [build_request half_renamed_upstream ep
           (rename_create_init env a content)]\<rparr>)"
  by (simp add: half_renamed_upstream_def githubRequest_by_method committed_def respond_result)

lemma half_renamed_delete:
  "githubRequest half_renamed_upstream ep (rename_delete_init a sha) st
     = (Inl (github_api_error 409 (lit ''Conflict'')),
        \<lparr>world = (),
         calls = calls st @ [build_request half_renamed_upstream ep (rename_delete_init a sha)]\<rparr>)"
  by (simp add: half_renamed_upstream_def githubRequest_by_method conflict_def respond_result)

lemma demo_file_content:
  "and_then (get_prop demo_file ''content'') (base64_to_string half_renamed_upstream)
     = Inr (lit ''aGVsbG8='')"
  "get_prop demo_file ''sha'' = Inr (Str (lit ''abc123''))"
  by (simp_all add: demo_file_def half_renamed_upstream_def demo_decode_def)

theorem rename_file_delete_fails_witness:
  "githubRequest half_renamed_upstream
       (contents_endpoint half_renamed_upstream (rf_repo rename_args) (rf_oldPath rename_args))
       default_init (start ())
     = (Inr demo_file,
        \<lparr>world = (), calls = [build_request half_renamed_upstream
           (contents_endpoint half_renamed_upstream (rf_repo rename_args) (rf_oldPath rename_args))
           default_init]\<rparr>)
   \<and> and_then (get_prop demo_file ''content'') (base64_to_string half_renamed_upstream)
       = Inr (lit ''aGVsbG8='')
   \<and> fst (githubRequest half_renamed_upstream
         (contents_endpoint half_renamed_upstream (rf_repo rename_args) (rf_newPath rename_args))
         (rename_create_init half_renamed_upstream rename_args (lit ''aGVsbG8='')) (start ()))
       = Inr (Obj [(lit ''commit'', Obj [(lit ''sha'', Str (lit ''c0ffee''))])])
   \<and> get_prop demo_file ''sha'' = Inr (Str (lit ''abc123''))
   \<and> fst (githubRequest half_renamed_upstream
         (contents_endpoint half_renamed_upstream (rf_repo rename_args) (rf_oldPath rename_args))
         (rename_delete_init rename_args (Str (lit ''abc123''))) (start ()))
       = Inl (github_api_error 409 (lit ''Conflict''))
   \<and> fst (rename_file half_renamed_upstream rename_args (start ()))
       = Inl (github_api_error 409 (lit ''Conflict''))
   \<and> map req_method (calls (snd (rename_file half_renamed_upstream rename_args (start ()))))
       = [GET, PUT, DELETE]"
  using rename_file_delete_fails [of half_renamed_upstream rename_args "start ()",
      OF half_renamed_read demo_file_content(1) half_renamed_create demo_file_content(2)
         half_renamed_delete]
  by (simp add: half_renamed_read half_renamed_create half_renamed_delete start_def
        demo_file_content)

lemma refusing_request:
  "githubRequest refusing_upstream ep i st
     = (Inl (github_api_error 409 (lit ''Conflict'')),
        \<lparr>world = (), calls = calls st @ [build_request refusing_upstream ep i]\<rparr>)"
  by (simp add: refusing_upstream_def githubRequest_by_method conflict_def respond_result)

text \<open>
  The claim as it is written fails. With one upstream the file is read, the copy is
  created and the deletion is answered 409; with the other the very first request is
  answered 409 and nothing is written. The handler reports the same failure in both
  cases: a copy left behind is not told apart from a clean failure.
\<close>

theorem rename_file_partial_looks_clean:
  "fst (rename_file half_renamed_upstream rename_args (start ()))
     = Inl (github_api_error 409 (lit ''Conflict''))
   \<and> map req_method (calls (snd (rename_file half_renamed_upstream rename_args (start ()))))
       = [GET, PUT, DELETE]
   \<and> fst (rename_file refusing_upstream rename_args (start ()))
       = Inl (github_api_error 409 (lit ''Conflict''))
   \<and> map req_method (calls (snd (rename_file refusing_upstream rename_args (start ()))))
       = [GET]"
  by (simp add: rename_file_def half_renamed_read half_renamed_create half_renamed_delete
        demo_file_content refusing_request start_def)

section \<open>A write that presents a stale token\<close>

text \<open>When the read gives a token, the write presents it.\<close>

lemma update_file_token_presented:
  assumes "githubRequest env (contents_endpoint env (uf_repo a) (uf_path a)) default_init st
             = (Inr existing, st1)"
      and "get_prop existing ''sha'' = Inr sha"
      and "githubRequest env (contents_endpoint env (uf_repo a) (uf_path a))
             (update_file_init env a sha) st1 = (result, st2)"
  shows "update_file env a st = (and_then result update_file_reply, st2)"
  using assms by (simp add: update_file_def)

lemma update_file_rejected:
  assumes "githubRequest env (contents_endpoint env (uf_repo a) (uf_path a)) default_init st
             = (Inr existing, st1)"
      and "get_prop existing ''sha'' = Inr sha"
      and "rejects env st1 (contents_endpoint env (uf_repo a) (uf_path a))
             (update_file_init env a sha) code body"
  shows "fst (update_file env a st) = Inl (github_api_error code body)"
proof -
  from rejects_request[OF assms(3)] obtain st2 where
    "githubRequest env (contents_endpoint env (uf_repo a) (uf_path a))
       (update_file_init env a sha) st1 = (Inl (github_api_error code body), st2)"
    by auto
  from update_file_token_presented[OF assms(1,2) this] show ?thesis by simp
qed

lemma delete_file_rejected:
  assumes "githubRequest env (contents_endpoint env (df_repo a) (df_path a)) default_init st
             = (Inr existing, st1)"
      and "get_prop existing ''sha'' = Inr sha"
      and "rejects env st1 (contents_endpoint env (df_repo a) (df_path a))
             (delete_file_init a sha) code body"
  shows "fst (delete_file env a st) = Inl (github_api_error code body)"
proof -
  from rejects_request[OF assms(3)] obtain st2 where
    "githubRequest env (contents_endpoint env (df_repo a) (df_path a))
       (delete_file_init a sha) st1 = (Inl (github_api_error code body), st2)"
    by auto
  with assms(1,2) show ?thesis by (simp add: delete_file_def)
qed

lemma rename_file_rejected:
  assumes "githubRequest env (contents_endpoint env (rf_repo a) (rf_oldPath a)) default_init st
             = (Inr file, st1)"
      and "and_then (get_prop file ''content'') (base64_to_string env) = Inr content"
      and "githubRequest env (contents_endpoint env (rf_repo a) (rf_newPath a))
             (rename_create_init env a content) st1 = (Inr created, st2)"
      and "get_prop file ''sha'' = Inr sha"
      and "rejects env st2 (contents_endpoint env (rf_repo a) (rf_oldPath a))
             (rename_delete_init a sha) code body"
  shows "fst (rename_file env a st) = Inl (github_api_error code body)"
proof -
  from rejects_request[OF assms(5)] obtain st3 where
    "githubRequest env (contents_endpoint env (rf_repo a) (rf_oldPath a))
       (rename_delete_init a sha) st2 = (Inl (github_api_error code body), st3)"
    by auto
  with assms(1-4) show ?thesis by (simp add: rename_file_def)
qed

text \<open>
  C4, as the code has it. Each of \<^verbatim>\<open>update_file\<close>, \<^verbatim>\<open>delete_file\<close> and \<^verbatim>\<open>rename_file\<close>
  reads the token of the file and presents it in a write (for \<^verbatim>\<open>rename_file\<close>, in the
  deletion of the old path). When the upstream rejects that write, with whatever status
  \<open>code\<close> and body (409 for a stale token), the handler fails with the one error
  \<^verbatim>\<open>githubRequest\<close> has for every rejected request: an \<^verbatim>\<open>Error\<close> with the message
  \<^verbatim>\<open>GitHub API error: <code> - <body>\<close>. The status in the text of the message is all that
  tells a stale token from any other rejection.
\<close>

theorem stale_write_is_generic_error:
  "(githubRequest env (contents_endpoint env (uf_repo ua) (uf_path ua)) default_init su
      = (Inr existing_u, su1) \<longrightarrow>
    get_prop existing_u ''sha'' = Inr sha_u \<longrightarrow>
    rejects env su1 (contents_endpoint env (uf_repo ua) (uf_path ua))
      (update_file_init env ua sha_u) code_u body_u \<longrightarrow>
    fst (update_file env ua su) = Inl (github_api_error code_u body_u))
   \<and> (githubRequest env (contents_endpoint env (df_repo da) (df_path da)) default_init sd
      = (Inr existing_d, sd1) \<longrightarrow>
    get_prop existing_d ''sha'' = Inr sha_d \<longrightarrow>
    rejects env sd1 (contents_endpoint env (df_repo da) (df_path da))
      (delete_file_init da sha_d) code_d body_d \<longrightarrow>
    fst (delete_file env da sd) = Inl (github_api_error code_d body_d))
   \<and> (githubRequest env (contents_endpoint env (rf_repo ra) (rf_oldPath ra)) default_init sr
      = (Inr file, sr1) \<longrightarrow>
    and_then (get_prop file ''content'') (base64_to_string env) = Inr content \<longrightarrow>
    githubRequest env (contents_endpoint env (rf_repo ra) (rf_newPath ra))
      (rename_create_init env ra content) sr1 = (Inr created, sr2) \<longrightarrow>
    get_prop file ''sha'' = Inr sha_r \<longrightarrow>
    rejects env sr2 (contents_endpoint env (rf_repo ra) (rf_oldPath ra))
      (rename_delete_init ra sha_r) code_r body_r \<longrightarrow>
    fst (rename_file env ra sr) = Inl (github_api_error code_r body_r))"
  by (intro conjI impI update_file_rejected delete_file_rejected rename_file_rejected)

lemma stale_upstream_request:
  "githubRequest stale_upstream ep i st
     = (and_then ([found, conflict, found, committed, conflict] ! min (world st) 4) response_result,
        \<lparr>world = Suc (world st), calls = calls st @ [build_request stale_upstream ep i]\<rparr>)"
  by (simp add: stale_upstream_def githubRequest_in_turn eval_nat_numeral)

lemma stale_upstream_rejects:
  "world st = 1 \<or> world st = 4 \<Longrightarrow> rejects stale_upstream st ep i 409 (lit ''Conflict'')"
  by (auto simp: rejects_def stale_upstream_def conflict_def respond_def)

lemma stale_upstream_decode:
  "and_then (get_prop demo_file ''content'') (base64_to_string stale_upstream)
     = Inr (lit ''aGVsbG8='')"
  by (simp add: demo_file_def stale_upstream_def demo_decode_def)

theorem stale_write_is_generic_error_witness:
  "fst (githubRequest stale_upstream
          (contents_endpoint stale_upstream (uf_repo update_args) (uf_path update_args))
          default_init (start 0)) = Inr demo_file
   \<and> get_prop demo_file ''sha'' = Inr (Str (lit ''abc123''))
   \<and> rejects stale_upstream \<lparr>world = 1, calls = []\<rparr>
        (contents_endpoint stale_upstream (uf_repo update_args) (uf_path update_args))
        (update_file_init stale_upstream update_args (Str (lit ''abc123''))) 409 (lit ''Conflict'')
   \<and> fst (update_file stale_upstream update_args (start 0))
       = Inl (github_api_error 409 (lit ''Conflict''))
   \<and> rejects stale_upstream \<lparr>world = 1, calls = []\<rparr>
        (contents_endpoint stale_upstream (df_repo delete_args) (df_path delete_args))
        (delete_file_init delete_args (Str (lit ''abc123''))) 409 (lit ''Conflict'')
   \<and> fst (delete_file stale_upstream delete_args (start 0))
       = Inl (github_api_error 409 (lit ''Conflict''))
   \<and> fst (githubRequest stale_upstream
          (contents_endpoint stale_upstream (rf_repo rename_args) (rf_newPath rename_args))
          (rename_create_init stale_upstream rename_args (lit ''aGVsbG8=''))
          \<lparr>world = 3, calls = []\<rparr>)
       = Inr (Obj [(lit ''commit'', Obj [(lit ''sha'', Str (lit ''c0ffee''))])])
   \<and> rejects stale_upstream \<lparr>world = 4, calls = []\<rparr>
        (contents_endpoint stale_upstream (rf_repo rename_args) (rf_oldPath rename_args))
        (rename_delete_init rename_args (Str (lit ''abc123''))) 409 (lit ''Conflict'')
   \<and> fst (rename_file stale_upstream rename_args (start 2))
       = Inl (github_api_error 409 (lit ''Conflict''))"
proof -
  have sha: "get_prop demo_file ''sha'' = Inr (Str (lit ''abc123''))"
    by (simp add: demo_file_def)
  have r0: "githubRequest stale_upstream ep default_init (start 0)
      = (Inr demo_file, \<lparr>world = 1, calls = [build_request stale_upstream ep default_init]\<rparr>)"
    for ep
    by (simp add: stale_upstream_request start_def found_def respond_result)
  have r2: "githubRequest stale_upstream ep default_init (start 2)
      = (Inr demo_file, \<lparr>world = 3, calls = [build_request stale_upstream ep default_init]\<rparr>)"
    for ep
    by (simp add: stale_upstream_request start_def found_def respond_result)
  have r3: "githubRequest stale_upstream ep i \<lparr>world = 3, calls = cs\<rparr>
      = (Inr (Obj [(lit ''commit'', Obj [(lit ''sha'', Str (lit ''c0ffee''))])]),
         \<lparr>world = 4, calls = cs @ [build_request stale_upstream ep i]\<rparr>)"
    for ep i cs
    by (simp add: stale_upstream_request committed_def respond_result)
  have rej: "rejects stale_upstream \<lparr>world = 1, calls = cs\<rparr> ep i 409 (lit ''Conflict'')"
    "rejects stale_upstream \<lparr>world = 4, calls = cs\<rparr> ep i 409 (lit ''Conflict'')"
    for ep i cs
    by (simp_all add: stale_upstream_rejects)
  note t = stale_write_is_generic_error [of stale_upstream update_args "start 0" demo_file
      _ "Str (lit ''abc123'')" 409 "lit ''Conflict''" delete_args "start 0" demo_file
      _ "Str (lit ''abc123'')" 409 "lit ''Conflict''" rename_args "start 2" demo_file
      _ "lit ''aGVsbG8=''" _ _ "Str (lit ''abc123'')" 409 "lit ''Conflict''"]
  from t r0 r2 r3 rej sha stale_upstream_decode show ?thesis
    by simp
qed

text \<open>
  The claim as it is written fails: the write of \<^verbatim>\<open>update_file\<close> is answered 409, and
  what the caller gets is the plain \<^verbatim>\<open>Error\<close> of \<^verbatim>\<open>githubRequest\<close>.
\<close>

theorem update_file_conflict_is_plain_error:
  "fst (update_file stale_upstream update_args (start 0))
     = Inl (Thrown Error (lit ''GitHub API error: 409 - Conflict''))"
proof -
  have "github_api_error 409 (lit ''Conflict'')
      = Thrown Error (lit ''GitHub API error: 409 - Conflict'')"
    by code_simp
  moreover have "fst (update_file stale_upstream update_args (start 0))
      = Inl (github_api_error 409 (lit ''Conflict''))"
    by (simp add: update_file_def Let_def stale_upstream_request start_def found_def
          conflict_def respond_result demo_file_def)
  ultimately show ?thesis by simp
qed

section \<open>Updating a file\<close>

text \<open>
  C5, as the code has it. \<^verbatim>\<open>update_file\<close> first reads the target path. When the read
  fails, with whatever error \<open>e\<close> (not found, or a server error, a refused credential, a
  network failure, ...), the error is dropped: the handler goes on to write without a
  token, and its outcome is the outcome of the write alone. The two requests, the read
  and the write, have been sent in this order.
\<close>

theorem update_file_read_failure_dropped:
  assumes "githubRequest env (contents_endpoint env (uf_repo a) (uf_path a)) default_init st
             = (Inl e, st1)"
      and "githubRequest env (contents_endpoint env (uf_repo a) (uf_path a))
             (update_file_init env a Undefined) st1 = (result, st2)"
  shows "update_file env a st = (and_then result update_file_reply, st2)
       \<and> calls st2 = calls st @
           [build_request env (contents_endpoint env (uf_repo a) (uf_path a)) default_init,
            build_request env (contents_endpoint env (uf_repo a) (uf_path a))
              (update_file_init env a Undefined)]"
proof
  from assms show "update_file env a st = (and_then result update_file_reply, st2)"
    by (simp add: update_file_def)
  from githubRequest_calls[OF assms(1)] githubRequest_calls[OF assms(2)]
  show "calls st2 = calls st @
           [build_request env (contents_endpoint env (uf_repo a) (uf_path a)) default_init,
            build_request env (contents_endpoint env (uf_repo a) (uf_path a))
              (update_file_init env a Undefined)]"
    by simp
qed

lemma read_broken_read:
  "githubRequest read_broken_upstream ep default_init st
     = (Inl (github_api_error 500 (lit ''Server Error'')),
        \<lparr>world = (), calls = calls st @ [build_request read_broken_upstream ep default_init]\<rparr>)"
  by (simp add: read_broken_upstream_def githubRequest_by_method server_error_def respond_result)

lemma read_broken_write:
  "githubRequest read_broken_upstream ep (update_file_init env a sha) st
     = (Inr (Obj [(lit ''commit'', Obj [(lit ''sha'', Str (lit ''c0ffee''))])]),
        \<lparr>world = (),
         calls = calls st @ [build_request read_broken_upstream ep (update_file_init env a sha)]\<rparr>)"
  by (simp add: read_broken_upstream_def githubRequest_by_method committed_def respond_result)

lemma committed_reply:
  "update_file_reply (Obj [(lit ''commit'', Obj [(lit ''sha'', Str (lit ''c0ffee''))])])
     = Inr (JsonText (Obj [(lit ''success'', Bool True), (lit ''commit'', Str (lit ''c0ffee''))]))"
  by (simp add: update_file_reply_def)

theorem update_file_read_failure_dropped_witness:
  "fst (githubRequest read_broken_upstream
          (contents_endpoint read_broken_upstream (uf_repo update_args) (uf_path update_args))
          default_init (start ()))
     = Inl (github_api_error 500 (lit ''Server Error''))
   \<and> fst (githubRequest read_broken_upstream
          (contents_endpoint read_broken_upstream (uf_repo update_args) (uf_path update_args))
          (update_file_init read_broken_upstream update_args Undefined) (start ()))
       = Inr (Obj [(lit ''commit'', Obj [(lit ''sha'', Str (lit ''c0ffee''))])])
   \<and> fst (update_file read_broken_upstream update_args (start ()))
       = Inr (JsonText (Obj [(lit ''success'', Bool True), (lit ''commit'', Str (lit ''c0ffee''))]))
   \<and> map req_method (calls (snd (update_file read_broken_upstream update_args (start ()))))
       = [GET, PUT]"
  using update_file_read_failure_dropped [of read_broken_upstream update_args "start ()",
      OF read_broken_read read_broken_write]
  by (simp add: read_broken_read read_broken_write committed_reply start_def)

text \<open>
  The claim as it is written fails: the read is answered 500, which is not "not found",
  and the handler succeeds all the same.
\<close>

theorem update_file_swallows_server_error:
  "fst (githubRequest read_broken_upstream
          (contents_endpoint read_broken_upstream (uf_repo update_args) (uf_path update_args))
          default_init (start ()))
     = Inl (github_api_error 500 (lit ''Server Error''))
   \<and> fst (update_file read_broken_upstream update_args (start ()))
       = Inr (JsonText (Obj [(lit ''success'', Bool True), (lit ''commit'', Str (lit ''c0ffee''))]))"
  by (simp add: update_file_def Let_def read_broken_read read_broken_write committed_reply)

section \<open>Project statistics\<close>

lemma rejections_none:
  "list_all (\<lambda>p. \<not> isl p) ps \<Longrightarrow> rejections ps is = []"
proof (induction "is")
  case Nil
  then show ?case by simp
next
  case (Cons i "is")
  then show ?case
    by (cases "ps ! i") (auto simp: list_all_length)
qed

lemma rejections_some:
  "i \<in> set is \<Longrightarrow> i < length ps \<Longrightarrow> isl (ps ! i) \<Longrightarrow> rejections ps is \<noteq> []"
  by (induction "is") (auto split: sum.splits)

lemma promise_all_resolves:
  "list_all (\<lambda>p. \<not> isl p) ps \<Longrightarrow> promise_all order ps = Inr (map projr ps)"
  by (simp add: promise_all_def rejections_none)

lemma promise_all_rejects:
  assumes "i < length ps" and "isl (ps ! i)"
  shows "isl (promise_all order ps)"
proof -
  from assms have "rejections ps (order @ [0..<length ps]) \<noteq> []"
    by (intro rejections_some[of i]) auto
  then show ?thesis
    by (cases "rejections ps (order @ [0..<length ps])") (auto simp: promise_all_def)
qed

lemma and_then_isl: "isl m \<Longrightarrow> isl (and_then m f)"
  by (cases m) auto

text \<open>
  When the three calls that are not guarded succeed, the result is made of the first
  two results and of the third, or of the empty array in its place; the fourth result is
  not part of it.
\<close>

lemma get_project_stats_resolves:
  assumes "githubRequest env (repo_endpoint env repo) default_init st = (Inr repoData, st1)"
      and "githubRequest env (repo_endpoint env repo @ lit ''/languages'') default_init st1
             = (Inr languages, st2)"
      and "githubRequest env (repo_endpoint env repo @ lit ''/contributors'') default_init st2
             = (p2, st3)"
      and "githubRequest env (repo_endpoint env repo @ lit ''/commits?per_page=1'') default_init st3
             = (Inr commits, st4)"
  shows "get_project_stats env repo st
           = (stats_reply repoData languages (case p2 of Inl e \<Rightarrow> Arr [] | Inr v \<Rightarrow> v), st4)"
  using assms
  by (cases p2) (simp_all add: get_project_stats_def promise_all_resolves)

text \<open>
  C6, as the code has it. \<^verbatim>\<open>get_project_stats\<close> sends exactly four requests (repository,
  languages, contributors, commits), all of them whatever the answers are, since all are
  started before any is awaited. When the repository, languages and commits calls
  succeed, the result is built from the repository data, the languages and the number of
  contributors, with the empty array in place of a failed contributors call (so the
  operation still succeeds, for a repository answer that is an object, with the count 0);
  the result of the commits call is awaited and then left out. When any of the repository,
  languages or commits calls fails, the operation fails.
\<close>

theorem get_project_stats_outcome:
  assumes "githubRequest env (repo_endpoint env repo) default_init st = (p0, st1)"
      and "githubRequest env (repo_endpoint env repo @ lit ''/languages'') default_init st1
             = (p1, st2)"
      and "githubRequest env (repo_endpoint env repo @ lit ''/contributors'') default_init st2
             = (p2, st3)"
      and "githubRequest env (repo_endpoint env repo @ lit ''/commits?per_page=1'') default_init st3
             = (p3, st4)"
  shows "snd (get_project_stats env repo st) = st4
       \<and> calls st4 = calls st @
           [build_request env (repo_endpoint env repo) default_init,
            build_request env (repo_endpoint env repo @ lit ''/languages'') default_init,
            build_request env (repo_endpoint env repo @ lit ''/contributors'') default_init,
            build_request env (repo_endpoint env repo @ lit ''/commits?per_page=1'') default_init]
       \<and> (p0 = Inr repoData \<longrightarrow> p1 = Inr languages \<longrightarrow> p3 = Inr commits \<longrightarrow>
            fst (get_project_stats env repo st)
              = stats_reply repoData languages (case p2 of Inl e \<Rightarrow> Arr [] | Inr v \<Rightarrow> v))
       \<and> (p0 = Inr (Obj props) \<longrightarrow> p1 = Inr languages \<longrightarrow> isl p2 \<longrightarrow> p3 = Inr commits \<longrightarrow>
            (\<exists>c. fst (get_project_stats env repo st) = Inr (JsonText (Obj c))
                \<and> map_of c (lit ''contributorsCount'') = Some (Num 0)))
       \<and> (isl p0 \<or> isl p1 \<or> isl p3 \<longrightarrow> isl (fst (get_project_stats env repo st)))"
proof (intro conjI impI)
  from assms show "snd (get_project_stats env repo st) = st4"
    by (simp add: get_project_stats_def)
next
  from githubRequest_calls[OF assms(1)] githubRequest_calls[OF assms(2)]
    githubRequest_calls[OF assms(3)] githubRequest_calls[OF assms(4)]
  show "calls st4 = calls st @
           [build_request env (repo_endpoint env repo) default_init,
            build_request env (repo_endpoint env repo @ lit ''/languages'') default_init,
            build_request env (repo_endpoint env repo @ lit ''/contributors'') default_init,
            build_request env (repo_endpoint env repo @ lit ''/commits?per_page=1'') default_init]"
    by simp
next
  assume "p0 = Inr repoData" "p1 = Inr languages" "p3 = Inr commits"
  with assms get_project_stats_resolves[of env repo st repoData st1 languages st2 p2 st3 commits st4]
  show "fst (get_project_stats env repo st)
          = stats_reply repoData languages (case p2 of Inl e \<Rightarrow> Arr [] | Inr v \<Rightarrow> v)"
    by simp
next
  assume "p0 = Inr (Obj props)" "p1 = Inr languages" "isl p2" "p3 = Inr commits"
  with assms get_project_stats_resolves[of env repo st "Obj props" st1 languages st2 p2 st3 commits st4]
  have "fst (get_project_stats env repo st) = stats_reply (Obj props) languages (Arr [])"
    by (cases p2) simp_all
  then show "\<exists>c. fst (get_project_stats env repo st) = Inr (JsonText (Obj c))
      \<and> map_of c (lit ''contributorsCount'') = Some (Num 0)"
    by (simp add: stats_reply_def split: option.splits)
next
  assume f: "isl p0 \<or> isl p1 \<or> isl p3"
  let ?ps = "[p0, p1, case p2 of Inl e \<Rightarrow> Inr (Arr []) | Inr v \<Rightarrow> Inr v, p3]"
  from f have "\<exists>i < length ?ps. isl (?ps ! i)"
  proof (elim disjE)
    assume "isl p0"
    then have "0 < length ?ps \<and> isl (?ps ! 0)" by simp
    then show ?thesis by blast
  next
    assume "isl p1"
    then have "1 < length ?ps \<and> isl (?ps ! 1)" by simp
    then show ?thesis by blast
  next
    assume "isl p3"
    then have "3 < length ?ps \<and> isl (?ps ! 3)" by simp
    then show ?thesis by blast
  qed
  then obtain i where "i < length ?ps" "isl (?ps ! i)" by blast
  then have "isl (promise_all (settle_order env) ?ps)"
    by (rule promise_all_rejects)
  with assms show "isl (fst (get_project_stats env repo st))"
    by (simp add: get_project_stats_def and_then_isl)
qed

lemma stats_upstream_request:
  "githubRequest (stats_upstream contributors commits) ep i st
     = (and_then ([respond 200 ''OK'' repo_json, respond 200 ''OK'' languages_json, contributors,
                   respond 200 ''OK'' commits] ! min (world st) 3) response_result,
        \<lparr>world = Suc (world st),
         calls = calls st @ [build_request (stats_upstream contributors commits) ep i]\<rparr>)"
  by (simp add: stats_upstream_def githubRequest_in_turn eval_nat_numeral)

lemma stats_upstream_requests:
  "githubRequest (stats_upstream contributors commits) ep i \<lparr>world = 0, calls = cs\<rparr>
     = (Inr repo_json,
        \<lparr>world = 1, calls = cs @ [build_request (stats_upstream contributors commits) ep i]\<rparr>)"
  "githubRequest (stats_upstream contributors commits) ep i \<lparr>world = 1, calls = cs\<rparr>
     = (Inr languages_json,
        \<lparr>world = 2, calls = cs @ [build_request (stats_upstream contributors commits) ep i]\<rparr>)"
  "githubRequest (stats_upstream contributors commits) ep i \<lparr>world = 2, calls = cs\<rparr>
     = (and_then contributors response_result,
        \<lparr>world = 3, calls = cs @ [build_request (stats_upstream contributors commits) ep i]\<rparr>)"
  "githubRequest (stats_upstream contributors commits) ep i \<lparr>world = 3, calls = cs\<rparr>
     = (Inr commits,
        \<lparr>world = 4, calls = cs @ [build_request (stats_upstream contributors commits) ep i]\<rparr>)"
  by (simp_all add: stats_upstream_request respond_result)

lemma demo_stats_reply:
  "stats_reply repo_json languages_json (Arr []) = Inr (JsonText (stats_json 0))"
  "stats_reply repo_json languages_json
     (Arr [Obj [(lit ''login'', Str (lit ''ada''))], Obj [(lit ''login'', Str (lit ''bob''))]])
     = Inr (JsonText (stats_json 2))"
  by (simp_all add: stats_reply_def repo_json_def stats_json_def)

theorem get_project_stats_outcome_witness:
  "fst (githubRequest (stats_upstream forbidden commits_a)
          (repo_endpoint (stats_upstream forbidden commits_a) (lit ''demo''))
          default_init (start 0))
     = Inr repo_json
   \<and> fst (githubRequest (stats_upstream forbidden commits_a)
          (repo_endpoint (stats_upstream forbidden commits_a) (lit ''demo'') @ lit ''/languages'')
          default_init \<lparr>world = 1, calls = []\<rparr>)
       = Inr languages_json
   \<and> fst (githubRequest (stats_upstream forbidden commits_a)
          (repo_endpoint (stats_upstream forbidden commits_a) (lit ''demo'')
             @ lit ''/contributors'')
          default_init \<lparr>world = 2, calls = []\<rparr>)
       = Inl (github_api_error 403 (lit ''Forbidden''))
   \<and> fst (githubRequest (stats_upstream forbidden commits_a)
          (repo_endpoint (stats_upstream forbidden commits_a) (lit ''demo'')
             @ lit ''/commits?per_page=1'')
          default_init \<lparr>world = 3, calls = []\<rparr>)
       = Inr commits_a
   \<and> fst (get_project_stats (stats_upstream forbidden commits_a) (lit ''demo'') (start 0))
       = Inr (JsonText (stats_json 0))
   \<and> length (calls (snd (get_project_stats (stats_upstream forbidden commits_a) (lit ''demo'')
        (start 0)))) = 4"
proof -
  let ?env = "stats_upstream forbidden commits_a"
  have c: "and_then forbidden response_result = Inl (github_api_error 403 (lit ''Forbidden''))"
    by (simp add: forbidden_def respond_result)
  note t = get_project_stats_outcome [of ?env "lit ''demo''" "start 0"
      "Inr repo_json" _ "Inr languages_json" _ "Inl (github_api_error 403 (lit ''Forbidden''))"
      _ "Inr commits_a" _ repo_json languages_json commits_a,
      unfolded start_def, OF stats_upstream_requests(1) stats_upstream_requests(2)
        stats_upstream_requests(3) [of forbidden, unfolded c] stats_upstream_requests(4)]
  have q: "fst (githubRequest ?env ep default_init \<lparr>world = 0, calls = []\<rparr>) = Inr repo_json"
    "fst (githubRequest ?env ep default_init \<lparr>world = 1, calls = []\<rparr>) = Inr languages_json"
    "fst (githubRequest ?env ep default_init \<lparr>world = 2, calls = []\<rparr>)
       = Inl (github_api_error 403 (lit ''Forbidden''))"
    "fst (githubRequest ?env ep default_init \<lparr>world = 3, calls = []\<rparr>) = Inr commits_a"
    for ep
    by (simp_all only: stats_upstream_requests c fst_conv)
  from t q show ?thesis
    by (simp add: start_def demo_stats_reply)
qed

text \<open>
  The claim as it is written fails. All four calls succeed, and two upstreams differ in
  nothing but what they answer to the commits call: the result is the same, made of the
  other three answers.
\<close>

theorem get_project_stats_leaves_commits_out:
  "fst (get_project_stats (stats_upstream two_contributors commits_a) (lit ''demo'') (start 0))
     = Inr (JsonText (stats_json 2))
   \<and> fst (get_project_stats (stats_upstream two_contributors commits_b) (lit ''demo'') (start 0))
       = Inr (JsonText (stats_json 2))
   \<and> commits_a \<noteq> commits_b"
proof -
  have c: "and_then two_contributors response_result
      = Inr (Arr [Obj [(lit ''login'', Str (lit ''ada''))], Obj [(lit ''login'', Str (lit ''bob''))]])"
    by (simp add: two_contributors_def respond_result)
  have "fst (get_project_stats (stats_upstream two_contributors commits) (lit ''demo'') (start 0))
      = Inr (JsonText (stats_json 2))" for commits
    using get_project_stats_resolves [of "stats_upstream two_contributors commits" "lit ''demo''"
        "start 0", unfolded start_def, OF stats_upstream_requests(1) stats_upstream_requests(2)
          stats_upstream_requests(3) stats_upstream_requests(4)]
    by (simp add: start_def c demo_stats_reply)
  then show ?thesis
    by (simp add: commits_a_def commits_b_def)
qed

section \<open>The build URL\<close>

lemma unreserved_not_surrogate:
  "uri_unreserved c \<Longrightarrow> \<not> is_high_surrogate c \<and> \<not> is_low_surrogate c"
  by (auto simp: uri_unreserved_def lit_def is_high_surrogate_def is_low_surrogate_def)

lemma surrogates_disjoint: "is_high_surrogate c \<Longrightarrow> \<not> is_low_surrogate c"
  by (simp add: is_high_surrogate_def is_low_surrogate_def word_le_nat_alt)

lemma encodeURIComponent_error: "encodeURIComponent s = Inl e \<Longrightarrow> e = uri_malformed"
proof (induction s arbitrary: e rule: encodeURIComponent.induct)
  case 1
  then show ?case by simp
next
  case (2 c)
  then show ?case by (simp split: if_splits)
next
  case (3 c d ds)
  show ?case
  proof (cases "encodeURIComponent (d # ds)")
    case (Inl x)
    with 3 show ?thesis
      by (cases "encodeURIComponent ds") (auto split: if_splits)
  next
    case (Inr x)
    with 3 show ?thesis
      by (cases "encodeURIComponent ds") (auto split: if_splits)
  qed
qed

text \<open>The encoding is defined exactly for the strings without an unpaired surrogate.\<close>

lemma encodeURIComponent_defined: "(\<exists>r. encodeURIComponent s = Inr r) = well_formed s"
proof (induction s rule: encodeURIComponent.induct)
  case 1
  then show ?case by simp
next
  case (2 c)
  then show ?case by (auto dest: unreserved_not_surrogate)
next
  case (3 c d ds)
  show ?case
  proof (cases "uri_unreserved c")
    case True
    with 3 show ?thesis
      by (cases "encodeURIComponent (d # ds)") (auto dest: unreserved_not_surrogate)
  next
    case False
    show ?thesis
    proof (cases "is_high_surrogate c")
      case True
      then have "\<not> is_low_surrogate c"
        by (rule surrogates_disjoint)
      with 3 True False show ?thesis
        by (cases "encodeURIComponent ds") auto
    next
      case hi: False
      with 3 False show ?thesis
        by (cases "encodeURIComponent (d # ds)") auto
    qed
  qed
qed

lemma demo_encoding: "encodeURIComponent (lit ''todo app'') = Inr (lit ''todo%20app'')"
  by code_simp

lemma plain_prompt_well_formed: "well_formed (bu_prompt plain_prompt)"
  using demo_encoding encodeURIComponent_defined [of "lit ''todo app''"]
  by (simp add: plain_prompt_def)

lemma lone_surrogate_ill_formed: "\<not> well_formed (bu_prompt lone_surrogate_prompt)"
  by (simp add: lone_surrogate_prompt_def is_high_surrogate_def)

text \<open>
  C7, as the code has it. The handler takes no environment and hands back the state it
  was given: it sends nothing upstream, whatever the prompt and the images are. For a
  prompt without an unpaired surrogate and with no images, the result holds the URL made
  of the fixed prefix followed by the percent-encoding of the prompt (and the length of
  the prompt). For a prompt with an unpaired surrogate the handler fails with
  \<^verbatim>\<open>URIError: URI malformed\<close>.
\<close>

theorem generate_build_url_result:
  "snd (generate_build_url a st) = st
   \<and> (well_formed (bu_prompt a) \<longrightarrow> bu_images a \<in> {None, Some []} \<longrightarrow>
        (\<exists>encoded. encodeURIComponent (bu_prompt a) = Inr encoded
           \<and> fst (generate_build_url a st)
               = Inr (JsonText (Obj
                   [(lit ''url'', Str (build_prefix @ encoded)),
                    (lit ''promptLength'', Num (int (length (bu_prompt a))))]))))
   \<and> (\<not> well_formed (bu_prompt a) \<longrightarrow> fst (generate_build_url a st) = Inl uri_malformed)"
proof (intro conjI impI)
  show "snd (generate_build_url a st) = st"
    by (simp add: generate_build_url_def Let_def split: sum.splits)
next
  assume "well_formed (bu_prompt a)" and i: "bu_images a \<in> {None, Some []}"
  then obtain encoded where e: "encodeURIComponent (bu_prompt a) = Inr encoded"
    using encodeURIComponent_defined [of "bu_prompt a"] by auto
  with i have "fst (generate_build_url a st)
      = Inr (JsonText (Obj
          [(lit ''url'', Str (build_prefix @ encoded)),
           (lit ''promptLength'', Num (int (length (bu_prompt a))))]))"
    by (auto simp: generate_build_url_def)
  with e show "\<exists>encoded. encodeURIComponent (bu_prompt a) = Inr encoded
      \<and> fst (generate_build_url a st)
          = Inr (JsonText (Obj
              [(lit ''url'', Str (build_prefix @ encoded)),
               (lit ''promptLength'', Num (int (length (bu_prompt a))))]))"
    by simp
next
  assume "\<not> well_formed (bu_prompt a)"
  then obtain e where e: "encodeURIComponent (bu_prompt a) = Inl e"
    using encodeURIComponent_defined [of "bu_prompt a"]
    by (cases "encodeURIComponent (bu_prompt a)") auto
  from encodeURIComponent_error [OF e] e
  show "fst (generate_build_url a st) = Inl uri_malformed"
    by (simp add: generate_build_url_def)
qed

theorem generate_build_url_result_witness:
  "well_formed (bu_prompt plain_prompt)
   \<and> bu_images plain_prompt \<in> {None, Some []}
   \<and> encodeURIComponent (bu_prompt plain_prompt) = Inr (lit ''todo%20app'')
   \<and> generate_build_url plain_prompt (start ())
       = (Inr (JsonText (Obj
            [(lit ''url'', Str (lit ''https://lovable.dev/?autosubmit=true#prompt=todo%20app'')),
             (lit ''promptLength'', Num 8)])), start ())
   \<and> \<not> well_formed (bu_prompt lone_surrogate_prompt)
   \<and> generate_build_url lone_surrogate_prompt (start ()) = (Inl uri_malformed, start ())"
proof -
  have p: "bu_prompt plain_prompt = lit ''todo app''" "bu_images plain_prompt = None"
    by (simp_all add: plain_prompt_def)
  have len: "length (lit ''todo app'') = 8"
    by (simp add: lit_def)
  from generate_build_url_result [of plain_prompt "start ()"] plain_prompt_well_formed
  have "generate_build_url plain_prompt (start ())
       = (Inr (JsonText (Obj
            [(lit ''url'', Str (build_prefix @ lit ''todo%20app'')),
             (lit ''promptLength'', Num 8)])), start ())"
    by (cases "generate_build_url plain_prompt (start ())")
       (auto simp: p demo_encoding len)
  moreover
  from generate_build_url_result [of lone_surrogate_prompt "start ()"] lone_surrogate_ill_formed
  have "generate_build_url lone_surrogate_prompt (start ()) = (Inl uri_malformed, start ())"
    by (cases "generate_build_url lone_surrogate_prompt (start ())") auto
  ultimately show ?thesis
    using plain_prompt_well_formed lone_surrogate_ill_formed
    by (simp add: p demo_encoding build_prefix_def lit_append)
qed

text \<open>
  The claim as it is written fails for the prompt that is one unpaired surrogate: the
  result holds no URL, the handler throws.
\<close>

theorem generate_build_url_lone_surrogate:
  "generate_build_url lone_surrogate_prompt (start ()) = (Inl uri_malformed, start ())"
  by (simp add: generate_build_url_def lone_surrogate_prompt_def uri_unreserved_def lit_def
        is_low_surrogate_def is_high_surrogate_def)

section \<open>Listings of the conventional folders\<close>










text \<open>None of the eight listings ever fails.\<close>

lemma folder_listings_never_fail:
  "\<exists>c. fst (list_components env repo st) = Inr c"
  "\<exists>c. fst (list_custom_components env repo st) = Inr c"
  "\<exists>c. fst (list_pages env repo st) = Inr c"
  "\<exists>c. fst (list_hooks env repo st) = Inr c"
  "\<exists>c. fst (list_contexts env repo st) = Inr c"
  "\<exists>c. fst (list_utils env repo st) = Inr c"
  "\<exists>c. fst (list_types env repo st) = Inr c"
  "\<exists>c. fst (list_integrations env repo st) = Inr c"
  by (auto simp: list_components_def list_custom_components_def list_pages_def list_hooks_def
        list_contexts_def list_utils_def list_types_def list_integrations_def
        split: prod.splits sum.splits)




section \<open>Listing issues\<close>

lemma not_pull_request_True:
  "\<exists>b. not_pull_request i = Inr b
     \<Longrightarrow> (not_pull_request i = Inr True) = (\<not> pull_request_marker i)"
  by (cases "get_prop i ''pull_request''")
     (auto simp: not_pull_request_def pull_request_marker_def)

text \<open>
  C9. Whenever \<^verbatim>\<open>list_issues\<close> returns a result, the upstream answered with an array,
  and the result is the array of the reshaped items, in order, of exactly those upstream
  items that carry no pull-request marker. So every item of the result is the reshaping
  of a true issue, and no item carrying the marker has a counterpart in the result.
\<close>

theorem list_issues_excludes_pull_requests:
  assumes "list_issues env a st = (Inr c, st')"
  shows "\<exists>url issues formatted.
           issues_url env a = Inr url
         \<and> githubRequest env url default_init st = (Inr (Arr issues), st')
         \<and> c = JsonText (Arr formatted)
         \<and> list_all2 (\<lambda>i item. format_issue i = Inr item)
              (filter (\<lambda>i. \<not> pull_request_marker i) issues) formatted"
proof -
  from assms obtain url where url: "issues_url env a = Inr url"
    by (cases "issues_url env a") (auto simp: list_issues_def)
  obtain r st1 where g: "githubRequest env url default_init st = (r, st1)"
    by (cases "githubRequest env url default_init st")
  from assms url g have st1: "st1 = st'" and
    c: "and_then r (\<lambda>v. and_then (js_filter ''issues'' not_pull_request v) (\<lambda>kept.
            and_then (js_map ''issues.filter(...)'' format_issue kept)
              (\<lambda>formatted. Inr (JsonText formatted)))) = Inr c"
    by (auto simp: list_issues_def)
  from c obtain v kept formatted where r: "r = Inr v"
    and k: "js_filter ''issues'' not_pull_request v = Inr kept"
    and f: "js_map ''issues.filter(...)'' format_issue kept = Inr formatted"
    and cf: "c = JsonText formatted"
    by (auto dest!: and_then_Inr)
  from k obtain issues ys where v: "v = Arr issues"
    and ys: "filter_throwing not_pull_request issues = Inr ys"
    and kept: "kept = Arr ys"
    by (auto simp: js_filter_def dest!: and_then_Inr array_receiver_Inr)
  from f kept obtain out where out: "map_throwing format_issue ys = Inr out"
    and fo: "formatted = Arr out"
    by (auto simp: js_map_def dest!: and_then_Inr array_receiver_Inr)
  from filter_throwing_Inr[OF ys] have "ys = filter (\<lambda>i. \<not> pull_request_marker i) issues"
    by (auto intro!: filter_cong simp: not_pull_request_True)
  with map_throwing_Inr[OF out] url g r v st1 cf fo show ?thesis by auto
qed

lemma demo_issues_url:
  "issues_url issues_upstream demo_issues_args = Inr (lit ''/repos/octo/demo/issues?state=open'')"
  by (simp add: issues_url_def demo_issues_args_def issues_upstream_def or_default_def
        repo_endpoint_def lit_append)

lemma demo_issues_kept:
  "js_filter ''issues'' not_pull_request (Arr [demo_issue, demo_pull]) = Inr (Arr [demo_issue])"
  by (simp add: js_filter_def not_pull_request_def demo_issue_def demo_pull_def)

lemma demo_issues_formatted:
  "js_map ''issues.filter(...)'' format_issue (Arr [demo_issue]) = Inr (Arr [demo_issue_formatted])"
  by (simp add: js_map_def format_issue_def demo_issue_def demo_issue_formatted_def)

lemma demo_issues_request:
  "githubRequest issues_upstream ep default_init st
     = (Inr (Arr [demo_issue, demo_pull]),
        \<lparr>world = world st, calls = calls st @ [build_request issues_upstream ep default_init]\<rparr>)"
  by (simp add: issues_upstream_def githubRequest_by_method respond_result default_init_def)

lemma demo_list_issues:
  "list_issues issues_upstream demo_issues_args (start ())
     = (Inr (JsonText (Arr [demo_issue_formatted])),
        \<lparr>world = (),
         calls = [build_request issues_upstream (lit ''/repos/octo/demo/issues?state=open'')
                    default_init]\<rparr>)"
  by (simp add: list_issues_def demo_issues_url demo_issues_request demo_issues_kept
        demo_issues_formatted start_def)

theorem list_issues_excludes_pull_requests_witness:
  "list_issues issues_upstream demo_issues_args (start ())
     = (Inr (JsonText (Arr [demo_issue_formatted])),
        \<lparr>world = (),
         calls = [build_request issues_upstream (lit ''/repos/octo/demo/issues?state=open'')
                    default_init]\<rparr>)
   \<and> (\<exists>url issues formatted.
           issues_url issues_upstream demo_issues_args = Inr url
         \<and> githubRequest issues_upstream url default_init (start ())
             = (Inr (Arr issues),
                \<lparr>world = (),
                 calls = [build_request issues_upstream
                    (lit ''/repos/octo/demo/issues?state=open'') default_init]\<rparr>)
         \<and> JsonText (Arr [demo_issue_formatted]) = JsonText (Arr formatted)
         \<and> list_all2 (\<lambda>i item. format_issue i = Inr item)
              (filter (\<lambda>i. \<not> pull_request_marker i) issues) formatted)"
  using list_issues_excludes_pull_requests [OF demo_list_issues] demo_list_issues
  by simp

section \<open>Reading several files\<close>

lemma read_one_string: "\<exists>s. fst (read_one env repo path st) = Str s"
  by (auto simp: read_one_def split: prod.splits sum.splits)

lemma read_loop_keys:
  "read_loop env repo paths results st = (results', st')
    \<Longrightarrow> fst ` set results' = fst ` set results \<union> (set paths - {lit ''__proto__''})"
proof (induction paths arbitrary: results st)
  case Nil
  then show ?case by simp
next
  case (Cons p ps)
  obtain v st1 where r: "read_one env repo p st = (v, st1)"
    by (cases "read_one env repo p st")
  with Cons.prems have "read_loop env repo ps (assign results p v) st1 = (results', st')"
    by simp
  from Cons.IH[OF this] show ?case
    by (auto simp: assign_def dom_update image_iff)
qed

lemma read_loop_distinct:
  "read_loop env repo paths results st = (results', st') \<Longrightarrow> distinct (map fst results)
    \<Longrightarrow> distinct (map fst results')"
proof (induction paths arbitrary: results st)
  case Nil
  then show ?case by simp
next
  case (Cons p ps)
  obtain v st1 where r: "read_one env repo p st = (v, st1)"
    by (cases "read_one env repo p st")
  with Cons.prems have l: "read_loop env repo ps (assign results p v) st1 = (results', st')"
    by simp
  from Cons.prems(2) have "distinct (map fst (assign results p v))"
    by (simp add: assign_def distinct_update)
  with Cons.IH[OF l] show ?case by simp
qed

lemma set_assign: "set (assign props k v) \<subseteq> insert (k, v) (set props)"
  by (induction props) (auto simp: assign_def)

lemma read_loop_strings:
  "read_loop env repo paths results st = (results', st')
    \<Longrightarrow> list_all (\<lambda>kv. \<exists>s. snd kv = Str s) results
    \<Longrightarrow> list_all (\<lambda>kv. \<exists>s. snd kv = Str s) results'"
proof (induction paths arbitrary: results st)
  case Nil
  then show ?case by simp
next
  case (Cons p ps)
  obtain v st1 where r: "read_one env repo p st = (v, st1)"
    by (cases "read_one env repo p st")
  with Cons.prems have l: "read_loop env repo ps (assign results p v) st1 = (results', st')"
    by simp
  from read_one_string[of env repo p st] r obtain s where "v = Str s" by auto
  with Cons.prems(2) have "list_all (\<lambda>kv. \<exists>s. snd kv = Str s) (assign results p v)"
    using set_assign[of results p v]
    by (auto simp: list_all_iff)
  with Cons.IH[OF l] show ?case by simp
qed

text \<open>
  For paths other than \<^verbatim>\<open>__proto__\<close> the handler does what is wanted: it never fails, and
  its result is an object with exactly one property per requested path, each a string
  (the decoded content, or \<^verbatim>\<open>Error: \<close> and the message of what was thrown).
\<close>

lemma read_multiple_files_entries:
  assumes "lit ''__proto__'' \<notin> set paths"
  shows "\<exists>results. fst (read_multiple_files env repo paths st) = Inr (JsonText (Obj results))
           \<and> fst ` set results = set paths
           \<and> distinct (map fst results)
           \<and> list_all (\<lambda>kv. \<exists>s. snd kv = Str s) results"
proof -
  obtain results st' where l: "read_loop env repo paths [] st = (results, st')"
    by (cases "read_loop env repo paths [] st")
  from read_loop_keys[OF l] assms have "fst ` set results = set paths" by auto
  moreover from read_loop_distinct[OF l] have "distinct (map fst results)" by simp
  moreover from read_loop_strings[OF l] have "list_all (\<lambda>kv. \<exists>s. snd kv = Str s) results"
    by simp
  ultimately show ?thesis using l by (simp add: read_multiple_files_def)
qed

lemma read_multiple_files_proto_only:
  "fst (read_multiple_files env repo [lit ''__proto__''] st) = Inr (JsonText (Obj []))"
  by (simp add: read_multiple_files_def assign_def split: prod.splits)

lemma missing_upstream_read_one:
  "read_one missing_upstream repo path st
     = (Str (lit ''Error: '' @ message (github_api_error 404 (lit ''Not Found''))),
        \<lparr>world = world st,
         calls = calls st @ [build_request missing_upstream
           (contents_endpoint missing_upstream repo path) default_init]\<rparr>)"
  by (simp add: read_one_def missing_upstream_def githubRequest_by_method not_found_def
        respond_result default_init_def)

text \<open>
  C10. Two paths are requested, \<^verbatim>\<open>README.md\<close> and \<^verbatim>\<open>__proto__\<close>, of a repository that
  has neither. The result has an entry for the first and none for the second:
  \<^verbatim>\<open>results["__proto__"] = "Error: ..."\<close> assigns a string to the accessor inherited from
  \<^verbatim>\<open>Object.prototype\<close>, which creates no property.
\<close>

theorem read_multiple_files_proto:
  "fst (read_multiple_files missing_upstream (lit ''demo'')
          [lit ''README.md'', lit ''__proto__''] (start ()))
     = Inr (JsonText (Obj
         [(lit ''README.md'',
           Str (lit ''Error: '' @ message (github_api_error 404 (lit ''Not Found''))))]))"
  by (simp add: read_multiple_files_def missing_upstream_read_one assign_def)

end
